theory Spec2Isabelle
  imports Main "HOL-Library.Word"
begin

section \<open>JavaScript values used by the engine\<close>

text \<open>
  Errors thrown by the engine or by its collaborators are values:
  \<^item> \<open>WriteFailed\<close> is \<open>Error('Write failed, empty response!')\<close>;
  \<^item> \<open>CommentCheckFailed\<close> is \<open>Error('Comment check failed, empty response!')\<close>;
  \<^item> \<open>WriteVerificationFailed\<close> is the \<open>Error\<close> of a failed write verification, with the
    expected and the received message text and the expected and the received timestamp;
  \<^item> \<open>AddressMismatch\<close> is the \<open>Error\<close> of \<open>getSignature\<close> when the address does not
    match the one derived from the private key;
  \<^item> \<open>RangeError\<close> is what \<open>BigInt\<close> throws on a number that is not an integer;
  \<^item> \<open>External\<close> stands for any exception raised by a storage collaborator.
\<close>

datatype error =
    WriteFailed
  | CommentCheckFailed
  | WriteVerificationFailed string string int int
  | AddressMismatch
  | RangeError
  | External string

text \<open>
  The results of \<open>parseInt\<close>: only integral doubles, \<open>NaN\<close> and the infinities can
  come out of it.
\<close>

datatype jsnumber = NaN | Finite int | Infinity | NegInfinity

subsection \<open>parseInt and BigInt\<close>

text \<open>
  Strings are byte strings here; the white space of \<open>parseInt\<close> is restricted to the
  characters below 256 accordingly.
\<close>

definition isWhiteSpace :: "char \<Rightarrow> bool" where
  "isWhiteSpace c =
     (let k = (of_char c :: nat) in k = 9 \<or> k = 10 \<or> k = 11 \<or> k = 12 \<or> k = 13 \<or> k = 32 \<or> k = 160)"

definition digitValue :: "char \<Rightarrow> nat option" where
  "digitValue c =
     (let k = (of_char c :: nat) in
      if 48 \<le> k \<and> k \<le> 57 then Some (k - 48)
      else if 97 \<le> k \<and> k \<le> 122 then Some (k - 87)
      else if 65 \<le> k \<and> k \<le> 90 then Some (k - 55)
      else None)"

definition isRadixDigit :: "nat \<Rightarrow> char \<Rightarrow> bool" where
  "isRadixDigit R c = (case digitValue c of None \<Rightarrow> False | Some d \<Rightarrow> d < R)"

text \<open>The mathematical integer denoted by a string of radix-\<open>R\<close> digits.\<close>

definition mathInt :: "nat \<Rightarrow> string \<Rightarrow> nat" where
  "mathInt R Z = foldl (\<lambda>acc c. case digitValue c of None \<Rightarrow> acc | Some d \<Rightarrow> acc * R + d) 0 Z"

fun bitLength :: "nat \<Rightarrow> nat" where
  "bitLength n = (if n = 0 then 0 else Suc (bitLength (n div 2)))"

declare bitLength.simps [simp del]

text \<open>
  Conversion of a non-negative integer to the nearest double (round to nearest, ties
  to even, 53 bits of precision), as an integer again.
\<close>

definition roundToDouble :: "nat \<Rightarrow> nat" where
  "roundToDouble m =
     (if m < 2 ^ 53 then m
      else let e = bitLength m - 53;
               q = m div 2 ^ e;
               r = m mod 2 ^ e;
               h = 2 ^ (e - 1)
           in if h < r \<or> (r = h \<and> odd q) then (q + 1) * 2 ^ e else q * 2 ^ e)"

definition toNumber :: "int \<Rightarrow> nat \<Rightarrow> jsnumber" where
  "toNumber sign m =
     (let d = roundToDouble m in
      if 2 ^ 1024 \<le> d then (if sign < 0 then NegInfinity else Infinity)
      else Finite (sign * int d))"

text \<open>
  \<open>parseInt(string, radix)\<close> of ECMA-262: leading white space is trimmed, a sign is
  read, for radix 16 (and for radix 0) a prefix \<open>0x\<close> or \<open>0X\<close> is removed, and the longest
  prefix of radix digits is the number; none gives \<open>NaN\<close>.
\<close>

definition parseInt :: "string \<Rightarrow> nat \<Rightarrow> jsnumber" where
  "parseInt inputString radix =
     (let S = dropWhile isWhiteSpace inputString;
          sign = (if S \<noteq> [] \<and> hd S = CHR ''-'' then - 1 else (1::int));
          S1 = (if S \<noteq> [] \<and> (hd S = CHR ''+'' \<or> hd S = CHR ''-'') then tl S else S);
          stripPrefix = (radix = 0 \<or> radix = 16);
          R0 = (if radix = 0 then 10 else radix);
          hasPrefix = (stripPrefix \<and> (take 2 S1 = ''0x'' \<or> take 2 S1 = ''0X''));
          S2 = (if hasPrefix then drop 2 S1 else S1);
          R = (if hasPrefix then 16 else R0);
          Z = takeWhile (isRadixDigit R) S2
      in if radix \<noteq> 0 \<and> (radix < 2 \<or> 36 < radix) then NaN
         else if Z = [] then NaN
         else toNumber sign (mathInt R Z))"

definition BigInt :: "jsnumber \<Rightarrow> error + int" where
  "BigInt x = (case x of Finite i \<Rightarrow> Inr i | _ \<Rightarrow> Inl RangeError)"

subsection \<open>The index codec\<close>

definition isHexLetter :: "char \<Rightarrow> bool" where
  "isHexLetter c =
     (let k = (of_char c :: nat) in (97 \<le> k \<and> k \<le> 102) \<or> (65 \<le> k \<and> k \<le> 70))"

text \<open>
  \<open>indexStrToBigint\<close>: \<open>undefined\<close> and the empty string give \<open>undefined\<close>
  (\<open>Inr None\<close>); a string with a letter \<open>a\<close>-\<open>f\<close>, a leading \<open>0\<close> or more than ten
  characters is read in radix 16, any other in radix 10.
\<close>

definition indexStrToBigint :: "string option \<Rightarrow> error + int option" where
  "indexStrToBigint indexStr =
     (case indexStr of
        None \<Rightarrow> Inr None
      | Some str \<Rightarrow>
          if str = [] then Inr None
          else
            let isHex = (list_ex isHexLetter str \<or> hd str = CHR ''0'' \<or> 10 < length str)
            in if isHex then map_sum id Some (BigInt (parseInt str 16))
               else map_sum id Some (BigInt (parseInt str 10)))"

subsection \<open>Textual encodings of an index\<close>

text \<open>
  The digit characters of \<open>toString\<close>; \<open>digitChar\<close> is only applied to a digit below the
  radix, which is 10 or 16 here.
\<close>

definition digitChar :: "nat \<Rightarrow> char" where
  "digitChar d = ''0123456789abcdefghijklmnopqrstuvwxyz'' ! d"

text \<open>The decimal form, \<open>n.toString()\<close> of a non-negative bigint.\<close>

function decimalString :: "nat \<Rightarrow> string" where
  "decimalString n = (if n < 10 then [digitChar n] else decimalString (n div 10) @ [digitChar (n mod 10)])"
  by pat_completeness auto
termination
  by (relation "measure (\<lambda>n. n)") auto

declare decimalString.simps [simp del]

text \<open>
  A feed index of the storage library is eight bytes, big-endian: \<open>fromBigInt\<close> keeps
  the value modulo \<open>2 ^ 64\<close>, \<open>toBigInt\<close> reads it unsigned, \<open>MINUS_ONE\<close> is all ones and
  \<open>toString\<close> prints the sixteen lower-case hexadecimal digits.
\<close>

type_synonym FeedIndex = "64 word"

definition fromBigInt :: "int \<Rightarrow> FeedIndex" where
  "fromBigInt n = word_of_int n"

definition toBigInt :: "FeedIndex \<Rightarrow> int" where
  "toBigInt w = uint w"

definition MINUS_ONE :: FeedIndex where
  "MINUS_ONE = - 1"

definition FEED_INDEX_ZERO :: FeedIndex where
  "FEED_INDEX_ZERO = fromBigInt 0"

fun fixedHex :: "nat \<Rightarrow> nat \<Rightarrow> string" where
  "fixedHex 0 n = []"
| "fixedHex (Suc k) n = fixedHex k (n div 16) @ [digitChar (n mod 16)]"

definition feedIndexToString :: "FeedIndex \<Rightarrow> string" where
  "feedIndexToString w = fixedHex 16 (unat w)"


section \<open>Messages, collaborators and observable effects\<close>

datatype MessageType = TEXT | THREAD | REACTION

text \<open>
  \<open>MessageData\<close> of the comment system. The fields that the engine leaves out or tests
  for \<open>undefined\<close> are options.
\<close>

record MessageData =
  id' :: string
  username :: string
  address :: string
  topic' :: string
  signature :: "string option"
  timestamp :: int
  type' :: MessageType
  targetMessageId :: "string option"
  message :: string
  index' :: "string option"
  isLegacy :: "bool option"

text \<open>The object \<open>{} as MessageData\<close>: no field is set.\<close>

definition emptyObject :: MessageData where
  "emptyObject =
     \<lparr>id' = [], username = [], address = [], topic' = [], signature = None, timestamp = 0,
      type' = TEXT, targetMessageId = None, message = [], index' = None, isLegacy = None\<rparr>"

record UploadResult =
  reference :: string

record ReactionsWithIndex =
  messages :: "MessageData list"
  nextIndex :: "string option"

text \<open>
  The object handed to \<open>JSON.stringify\<close> before signing or verifying: its keys with
  their values, in the order of the object literal.
\<close>

datatype jsonValue = JString string | JNumber int

type_synonym jsonObject = "(string \<times> jsonValue) list"

text \<open>
  The pure functions of the signing and comment libraries are parameters of the model:
  \<^item> \<open>updateReactions\<close>, the merge of a reaction into a snapshot (\<open>None\<close> is \<open>undefined\<close>);
  \<^item> \<open>keyAddress k\<close> is \<open>new PrivateKey(k).publicKey().address().toString()\<close>;
  \<^item> \<open>ethAddress a\<close> is \<open>new EthAddress(a).toString()\<close>;
  \<^item> \<open>sign k obj\<close> is \<open>new PrivateKey(k).sign(JSON.stringify(obj)).toHex()\<close>;
  \<^item> \<open>digest obj\<close> is the prefixed Keccak digest of \<open>JSON.stringify(obj)\<close>;
  \<^item> \<open>isValid sg d a\<close> is \<open>new Signature(sg).isValid(d, a)\<close>, which may throw;
  \<^item> \<open>topicString t\<close> is \<open>Topic.fromString(t).toString()\<close>;
  \<^item> \<open>isNotFoundError\<close> recognises the not-found errors of the storage collaborator.
\<close>

record collaborators =
  updateReactions :: "MessageData list \<Rightarrow> MessageData \<Rightarrow> MessageData list option"
  keyAddress :: "string \<Rightarrow> string"
  ethAddress :: "string \<Rightarrow> string"
  sign :: "string \<Rightarrow> jsonObject \<Rightarrow> string"
  digest :: "jsonObject \<Rightarrow> string"
  isValid :: "string \<Rightarrow> string \<Rightarrow> string \<Rightarrow> error + bool"
  topicString :: "string \<Rightarrow> string"
  isNotFoundError :: "error \<Rightarrow> bool"

text \<open>The events of \<open>EVENTS\<close>, each with the payload the engine emits with it.\<close>

datatype event =
    LOADING_INIT bool
  | LOADING_PREVIOUS_MESSAGES bool
  | MESSAGE_RECEIVED MessageData
  | MESSAGE_REQUEST_INITIATED MessageData
  | MESSAGE_REQUEST_UPLOADED MessageData
  | MESSAGE_REQUEST_ERROR MessageData
  | CRITICAL_ERROR error

text \<open>
  What an operation does to the outside, in order: the events it emits, the requests it
  sends to the storage collaborator, the errors it hands to the error handler (with the
  context string), the removal of all listeners and the scheduling of the next poll.
\<close>

datatype effect =
    Emit event
  | ReadSingleComment "FeedIndex option"
  | ReadCommentsInRange FeedIndex FeedIndex
  | ReadReactionsWithIndex "FeedIndex option"
  | WriteCommentToIndex MessageData FeedIndex
  | WriteReactionsToIndex "MessageData list" FeedIndex
  | HandleError error string
  | CleanAll
  | SetTimeout int

definition COMMENTS_TO_READ :: int where
  "COMMENTS_TO_READ = 9"

definition DEFAULT_POLL_INTERVAL :: int where
  "DEFAULT_POLL_INTERVAL = 2000"

definition MINIMUM_POLL_INTERVAL :: int where
  "MINIMUM_POLL_INTERVAL = 500"

section \<open>Signature validation and the range fetch\<close>

definition validateUserSignature :: "collaborators \<Rightarrow> MessageData \<Rightarrow> bool" where
  "validateUserSignature x data =
     (if isLegacy data = Some True then True
      else
        let message_obj =
              [(''username'', JString (username data)), (''address'', JString (address data)),
               (''timestamp'', JNumber (timestamp data)), (''message'', JString (message data))];
            d = digest x message_obj
        in case signature data of
             None \<Rightarrow> False
           | Some sg \<Rightarrow> (case isValid x sg d (address data) of Inl err \<Rightarrow> False | Inr ok \<Rightarrow> ok))"

text \<open>The loop of \<open>fetchMessagesInRange\<close> over the comments read.\<close>

fun emitValidated :: "collaborators \<Rightarrow> MessageData list \<Rightarrow> effect list" where
  "emitValidated x [] = []"
| "emitValidated x (c # cs) =
     (if \<not> validateUserSignature x c then emitValidated x cs
      else Emit (MESSAGE_RECEIVED c) # emitValidated x cs)"

text \<open>
  \<open>fetchMessagesInRange\<close>; \<open>response\<close> is what \<open>readCommentsInRange\<close> answers: an exception,
  \<open>undefined\<close> or the comments.
\<close>

definition fetchMessagesInRange ::
  "collaborators \<Rightarrow> int \<Rightarrow> int \<Rightarrow> error + MessageData list option \<Rightarrow> (error + unit) \<times> effect list" where
  "fetchMessagesInRange x startIndex endIndex response =
     (let request = ReadCommentsInRange (fromBigInt startIndex) (fromBigInt endIndex) in
      case response of
        Inl err \<Rightarrow> (Inl err, [request])
      | Inr None \<Rightarrow> (Inr (), [request])
      | Inr (Some comments) \<Rightarrow> (Inr (), request # emitValidated x comments))"


section \<open>SwarmHistory\<close>

record SwarmHistory =
  startIndex :: int

text \<open>
  \<open>SwarmHistory.fetchLatestMessage\<close>; \<open>response\<close> is what \<open>readSingleComment(undefined)\<close>
  answers: an exception, \<open>undefined\<close> or the latest comment.
\<close>

definition history_fetchLatestMessage ::
  "error + MessageData option \<Rightarrow> (error + MessageData \<times> FeedIndex) \<times> effect list" where
  "history_fetchLatestMessage response =
     (case response of
        Inl err \<Rightarrow> (Inl err, [ReadSingleComment None])
      | Inr latestComment \<Rightarrow>
          (case indexStrToBigint (case latestComment of None \<Rightarrow> None | Some c \<Rightarrow> index' c) of
             Inl err \<Rightarrow> (Inl err, [ReadSingleComment None])
           | Inr parsedIx \<Rightarrow>
               (case (latestComment, parsedIx) of
                  (Some c, Some ix) \<Rightarrow>
                    if ix = 0 then (Inr (emptyObject, MINUS_ONE), [ReadSingleComment None])
                    else (Inr (c, fromBigInt ix), [ReadSingleComment None])
                | _ \<Rightarrow> (Inr (emptyObject, MINUS_ONE), [ReadSingleComment None]))))"

text \<open>
  \<open>SwarmHistory.init\<close>. An exception of the read is caught, handed to the error handler
  unless it is a not-found error, and the cursor is left as it was.
\<close>

definition history_init ::
  "collaborators \<Rightarrow> SwarmHistory \<Rightarrow> int option \<Rightarrow> error + MessageData option \<Rightarrow> SwarmHistory \<times> effect list" where
  "history_init x h firstIndex response =
     (case firstIndex of
        Some first \<Rightarrow> (h\<lparr>startIndex := first\<rparr>, [])
      | None \<Rightarrow>
          (case history_fetchLatestMessage response of
             (Inl err, fx) \<Rightarrow>
               if isNotFoundError x err then (h, fx) else (h, fx @ [HandleError err ''SwarmHistory.init''])
           | (Inr (comment, ix), fx) \<Rightarrow>
               (h\<lparr>startIndex := toBigInt ix\<rparr>,
                fx @ (if ix \<noteq> MINUS_ONE then [Emit (MESSAGE_RECEIVED comment)] else []))))"

text \<open>
  \<open>SwarmHistory.fetchPreviousMessageState\<close>: the result is \<open>Inl\<close> when the range read
  throws, and then the cursor is not moved.
\<close>

definition fetchPreviousMessageState ::
  "collaborators \<Rightarrow> SwarmHistory \<Rightarrow> error + MessageData list option \<Rightarrow> (error + unit) \<times> SwarmHistory \<times> effect list" where
  "fetchPreviousMessageState x h response =
     (if startIndex h \<le> 0 then (Inr (), h, [])
      else
        let newStartIndex =
              (if startIndex h > COMMENTS_TO_READ then startIndex h - COMMENTS_TO_READ else 0)
        in case fetchMessagesInRange x newStartIndex (startIndex h - 1) response of
             (Inl err, fx) \<Rightarrow> (Inl err, h, fx)
           | (Inr u, fx) \<Rightarrow> (Inr (), h\<lparr>startIndex := newStartIndex\<rparr>, fx))"

text \<open>
  \<open>SwarmHistory.fetchLatestReactionState\<close>; \<open>response\<close> is what \<open>readReactionsWithIndex\<close>
  answers.
\<close>

definition fetchLatestReactionState ::
  "int option \<Rightarrow> int option \<Rightarrow> error + ReactionsWithIndex \<Rightarrow> (error + FeedIndex) \<times> effect list" where
  "fetchLatestReactionState ix prevIndex response =
     (let request = ReadReactionsWithIndex (case ix of None \<Rightarrow> None | Some i \<Rightarrow> Some (fromBigInt i)) in
      case response of
        Inl err \<Rightarrow> (Inl err, [request])
      | Inr reactionState \<Rightarrow>
          (case indexStrToBigint (nextIndex reactionState) of
             Inl err \<Rightarrow> (Inl err, [request])
           | Inr None \<Rightarrow> (Inr FEED_INDEX_ZERO, [request])
           | Inr (Some nextIxBigInt) \<Rightarrow>
               if nextIxBigInt = 0 \<or> nextIxBigInt < 0 \<or> fromBigInt nextIxBigInt = MINUS_ONE
               then (Inr FEED_INDEX_ZERO, [request])
               else
                 (Inr (fromBigInt nextIxBigInt),
                  request #
                  (case prevIndex of
                     None \<Rightarrow> []
                   | Some prev \<Rightarrow>
                       if nextIxBigInt > prev + 1
                       then map (\<lambda>reaction. Emit (MESSAGE_RECEIVED reaction)) (messages reactionState)
                       else []))))"

definition hasPreviousMessages :: "SwarmHistory \<Rightarrow> bool" where
  "hasPreviousMessages h = (startIndex h > 0)"

definition cleanup :: "SwarmHistory \<Rightarrow> SwarmHistory" where
  "cleanup h = h\<lparr>startIndex := - 1\<rparr>"

section \<open>SwarmComment\<close>

text \<open>
  Each method of the engine is one step of the model: it takes the state and the answers
  of the outside to the requests it sends, in the order it sends them, and returns the new
  state together with its effects in order. An asynchronous method runs to its end before
  the next one starts; two methods that the source starts together are run one after the
  other in the order of the calls. The section on requests in flight below cuts the same
  methods at their awaits and lets the answers arrive in any order.
\<close>

record CommentSettingsUser =
  privateKey :: string
  ownAddress :: string
  nickname :: string
  ownIndex :: int

record SwarmComment =
  history :: SwarmHistory
  userDetails :: CommentSettingsUser
  topic :: string
  pollInterval :: int
  fetchProcessRunning :: bool
  stopFetch :: bool
  reactionIndex :: int
  isSending :: bool

record CommentSettings =
  user_privateKey :: string
  user_nickname :: string
  infra_topic :: string
  infra_pollInterval :: "int option"

record PreloadOptions =
  firstIndex :: "int option"
  latestIndex :: "int option"
  reactionIndex_opt :: "int option"

text \<open>\<open>toLowerCase\<close> on the letters \<open>A\<close> to \<open>Z\<close>; the keys it is applied to are hexadecimal.\<close>

definition toLowerCase :: "string \<Rightarrow> string" where
  "toLowerCase str =
     map (\<lambda>c. let k = (of_char c :: nat) in if 65 \<le> k \<and> k \<le> 90 then char_of (k + 32) else c) str"

definition remove0x :: "string \<Rightarrow> string" where
  "remove0x hex = toLowerCase (if take 2 hex = ''0x'' then drop 2 hex else hex)"

text \<open>
  The constructor. The options records it builds (with the node address and the stamp of
  the settings, left out of \<open>CommentSettings\<close> here) only parametrise the storage
  collaborator and are not part of the state.
\<close>

definition new_SwarmComment :: "collaborators \<Rightarrow> CommentSettings \<Rightarrow> SwarmComment" where
  "new_SwarmComment x settings =
     (let interval =
            (case infra_pollInterval settings of
               None \<Rightarrow> DEFAULT_POLL_INTERVAL
             | Some i \<Rightarrow> if i = 0 then DEFAULT_POLL_INTERVAL else i)
      in \<lparr>history = \<lparr>startIndex = - 1\<rparr>,
          userDetails =
            \<lparr>privateKey = user_privateKey settings,
             ownAddress = keyAddress x (remove0x (user_privateKey settings)),
             nickname = user_nickname settings,
             ownIndex = - 1\<rparr>,
          topic = topicString x (infra_topic settings),
          pollInterval = (if interval < MINIMUM_POLL_INTERVAL then MINIMUM_POLL_INTERVAL else interval),
          fetchProcessRunning = False,
          stopFetch = False,
          reactionIndex = - 1,
          isSending = False\<rparr>)"

text \<open>\<open>getSignature\<close>; \<open>now\<close> is the value of \<open>Date.now()\<close> inside it.\<close>

definition getSignature :: "collaborators \<Rightarrow> CommentSettingsUser \<Rightarrow> string \<Rightarrow> int \<Rightarrow> error + string" where
  "getSignature x u msg now =
     (let own = ethAddress x (ownAddress u);
          signerAddress = keyAddress x (privateKey u)
      in if signerAddress \<noteq> own then Inl AddressMismatch
         else Inr (sign x (privateKey u)
                     [(''username'', JString (nickname u)), (''address'', JString own),
                      (''message'', JString msg), (''timestamp'', JNumber now)]))"

text \<open>
  \<open>fetchLatestMessage\<close>, the refresh of the message-stream tip; \<open>response\<close> answers the
  read of the latest comment.
\<close>

definition fetchLatestMessage :: "SwarmComment \<Rightarrow> error + MessageData option \<Rightarrow> SwarmComment \<times> effect list" where
  "fetchLatestMessage s response =
     (if isSending s then (s, [])
      else
        case history_fetchLatestMessage response of
          (Inl err, fx) \<Rightarrow> (s, fx @ [HandleError err ''Comment.fetchLatestMessage''])
        | (Inr (comment, ix), fx) \<Rightarrow>
            if ix \<noteq> MINUS_ONE \<and> ownIndex (userDetails s) < toBigInt ix
            then (s\<lparr>userDetails := (userDetails s)\<lparr>ownIndex := toBigInt ix\<rparr>\<rparr>,
                  fx @ [Emit (MESSAGE_RECEIVED comment)])
            else (s, fx))"

text \<open>\<open>fetchLatestReactions\<close>, the refresh of the reaction-stream tip.\<close>

definition fetchLatestReactions ::
  "SwarmComment \<Rightarrow> int option \<Rightarrow> error + ReactionsWithIndex \<Rightarrow> SwarmComment \<times> effect list" where
  "fetchLatestReactions s ix response =
     (case fetchLatestReactionState ix (Some (reactionIndex s)) response of
        (Inl err, fx) \<Rightarrow> (s, fx @ [HandleError err ''Comment.fetchLatestReactions''])
      | (Inr next, fx) \<Rightarrow>
          let reactionNextIndex = toBigInt next
          in if reactionNextIndex - 1 > reactionIndex s
             then (s\<lparr>reactionIndex := reactionNextIndex - 1\<rparr>, fx)
             else (s, fx))"

text \<open>
  \<open>verifyWriteSuccess\<close>; \<open>check\<close> answers the read at the written index, which is only
  sent when \<open>data\<close> is given.
\<close>

definition verifyWriteSuccess ::
  "FeedIndex \<Rightarrow> UploadResult option \<Rightarrow> MessageData option \<Rightarrow> error + MessageData option \<Rightarrow>
     (error + unit) \<times> effect list" where
  "verifyWriteSuccess ix writeResult data check =
     (case writeResult of
        None \<Rightarrow> (Inl WriteFailed, [])
      | Some res \<Rightarrow>
          (case data of
             None \<Rightarrow> (Inr (), [])
           | Some d \<Rightarrow>
               (case check of
                  Inl err \<Rightarrow> (Inl err, [ReadSingleComment (Some ix)])
                | Inr None \<Rightarrow> (Inl CommentCheckFailed, [ReadSingleComment (Some ix)])
                | Inr (Some dataCheck) \<Rightarrow>
                    if id' dataCheck \<noteq> id' d \<or> timestamp dataCheck \<noteq> timestamp d
                    then (Inl (WriteVerificationFailed (message d) (message dataCheck)
                                 (timestamp d) (timestamp dataCheck)),
                          [ReadSingleComment (Some ix)])
                    else (Inr (), [ReadSingleComment (Some ix)]))))"

text \<open>
  What the outside answers during one \<open>sendMessage\<close>: the identifier from \<open>uuidv4()\<close>, the
  two readings of \<open>Date.now()\<close>, and the answers to the tip read, the reaction read, the
  write and the read-back.
\<close>

record SendEnv =
  uuid :: string
  nowSignature :: int
  nowMessage :: int
  tipResponse :: "error + MessageData option"
  reactionsResponse :: "error + ReactionsWithIndex"
  writeResponse :: "error + UploadResult option"
  checkResponse :: "error + MessageData option"

text \<open>
  The two branches inside the \<open>try\<close> block of \<open>sendMessage\<close>. Each returns the state, the
  effects, the message object as it stands and the exception thrown, if any.
\<close>

definition sendReaction ::
  "collaborators \<Rightarrow> SwarmComment \<Rightarrow> SendEnv \<Rightarrow> MessageData \<Rightarrow> MessageData list option \<Rightarrow>
     SwarmComment \<times> effect list \<times> MessageData \<times> error option" where
  "sendReaction x s env messageObj prevState =
     (let (s1, fx1) = fetchLatestReactions s None (reactionsResponse env);
          reactionNextIndex =
            (if reactionIndex s1 = - 1 then FEED_INDEX_ZERO else fromBigInt (reactionIndex s1 + 1));
          messageObj1 = messageObj\<lparr>index' := Some (feedIndexToString reactionNextIndex)\<rparr>;
          newReactionState =
            (case updateReactions x (case prevState of None \<Rightarrow> [] | Some p \<Rightarrow> p) messageObj1 of
               None \<Rightarrow> []
             | Some st \<Rightarrow> st);
          s2 = s1\<lparr>isSending := True\<rparr>;
          fx2 = fx1 @ [WriteReactionsToIndex newReactionState reactionNextIndex]
      in case writeResponse env of
           Inl err \<Rightarrow> (s2, fx2, messageObj1, Some err)
         | Inr res \<Rightarrow>
             (case verifyWriteSuccess reactionNextIndex res None (checkResponse env) of
                (Inl err, fx3) \<Rightarrow> (s2, fx2 @ fx3, messageObj1, Some err)
              | (Inr u, fx3) \<Rightarrow>
                  (s2\<lparr>reactionIndex := toBigInt reactionNextIndex\<rparr>, fx2 @ fx3, messageObj1, None)))"

definition sendComment ::
  "SwarmComment \<Rightarrow> SendEnv \<Rightarrow> MessageData \<Rightarrow> SwarmComment \<times> effect list \<times> MessageData \<times> error option" where
  "sendComment s env messageObj =
     (let (s1, fx1) = fetchLatestMessage s (tipResponse env);
          nextIndex = (if ownIndex (userDetails s1) = - 1 then 0 else ownIndex (userDetails s1) + 1);
          messageObj1 = messageObj\<lparr>index' := Some (feedIndexToString (fromBigInt nextIndex))\<rparr>;
          s2 = s1\<lparr>isSending := True\<rparr>;
          fx2 = fx1 @ [WriteCommentToIndex messageObj1 (fromBigInt nextIndex)]
      in case writeResponse env of
           Inl err \<Rightarrow> (s2, fx2, messageObj1, Some err)
         | Inr res \<Rightarrow>
             (case verifyWriteSuccess (fromBigInt nextIndex) res (Some messageObj1) (checkResponse env) of
                (Inl err, fx3) \<Rightarrow> (s2, fx2 @ fx3, messageObj1, Some err)
              | (Inr u, fx3) \<Rightarrow>
                  (s2\<lparr>userDetails := (userDetails s2)\<lparr>ownIndex := nextIndex\<rparr>\<rparr>,
                   fx2 @ fx3, messageObj1, None)))"

text \<open>
  The object literal at the head of \<open>sendMessage\<close>. Its evaluation calls \<open>uuidv4\<close> when
  no identifier (or an empty one) is given, then \<open>getSignature\<close>, which may throw, then
  \<open>Date.now()\<close>.
\<close>

definition messageObject ::
  "collaborators \<Rightarrow> SwarmComment \<Rightarrow> SendEnv \<Rightarrow> string \<Rightarrow> MessageType \<Rightarrow> string option \<Rightarrow>
     string option \<Rightarrow> error + MessageData" where
  "messageObject x s env msg ty target ident =
     (case getSignature x (userDetails s) msg (nowSignature env) of
        Inl err \<Rightarrow> Inl err
      | Inr sg \<Rightarrow>
          Inr \<lparr>id' = (case ident of None \<Rightarrow> uuid env | Some i \<Rightarrow> if i = [] then uuid env else i),
               username = nickname (userDetails s),
               address = ownAddress (userDetails s),
               topic' = topic s,
               signature = Some sg,
               timestamp = nowMessage env,
               type' = ty,
               targetMessageId = target,
               message = msg,
               index' = None,
               isLegacy = None\<rparr>)"

text \<open>
  \<open>sendMessage\<close>. The message object is built before the \<open>try\<close> block, so an exception
  of \<open>getSignature\<close> leaves the function (\<open>Inl\<close>); every exception inside the block is
  caught, reported and followed by the \<open>finally\<close> clause.
\<close>

definition sendMessage ::
  "collaborators \<Rightarrow> SwarmComment \<Rightarrow> SendEnv \<Rightarrow> string \<Rightarrow> MessageType \<Rightarrow> string option \<Rightarrow>
     string option \<Rightarrow> MessageData list option \<Rightarrow> error + SwarmComment \<times> effect list" where
  "sendMessage x s env msg ty target ident prevState =
     (case messageObject x s env msg ty target ident of
        Inl err \<Rightarrow> Inl err
      | Inr messageObj \<Rightarrow>
          let (s1, fx, messageObj1, thrown) =
                (if ty = REACTION then sendReaction x s env messageObj prevState
                 else sendComment s env messageObj)
          in (case thrown of
                None \<Rightarrow>
                  Inr (s1\<lparr>isSending := False\<rparr>,
                       Emit (MESSAGE_REQUEST_INITIATED messageObj) # fx @
                       [Emit (MESSAGE_REQUEST_UPLOADED messageObj1)])
              | Some thrown_err \<Rightarrow>
                  Inr (s1\<lparr>isSending := False\<rparr>,
                       Emit (MESSAGE_REQUEST_INITIATED messageObj) # fx @
                       [Emit (MESSAGE_REQUEST_ERROR messageObj1),
                        HandleError thrown_err ''Comment.sendMessage''])))"

text \<open>
  \<open>retrySendMessage\<close> calls \<open>sendMessage\<close> without waiting for it and without a prior
  reaction state; an exception of the call is not observed by the caller.
\<close>

definition retrySendMessage ::
  "collaborators \<Rightarrow> SwarmComment \<Rightarrow> SendEnv \<Rightarrow> MessageData \<Rightarrow> SwarmComment \<times> effect list" where
  "retrySendMessage x s env m =
     (case sendMessage x s env (message m) (type' m) (targetMessageId m) (Some (id' m)) None of
        Inl err \<Rightarrow> (s, [])
      | Inr r \<Rightarrow> r)"


text \<open>
  \<open>retryAwaitableAsync\<close>: \<open>fn k\<close> is the outcome of the \<open>k\<close>-th call of the retried function,
  \<open>request\<close> the request each call sends. After a failure with retries left the next call
  is scheduled after \<open>delay\<close>; without retries left the error is handled and thrown.
\<close>

fun retryAwaitableAsync ::
  "(nat \<Rightarrow> error + 'a) \<Rightarrow> effect \<Rightarrow> int \<Rightarrow> nat \<Rightarrow> nat \<Rightarrow> (error + 'a) \<times> effect list" where
  "retryAwaitableAsync fn request delay k 0 =
     (case fn k of
        Inr v \<Rightarrow> (Inr v, [request])
      | Inl err \<Rightarrow> (Inl err, [request, HandleError err ''Utils.retryAwaitableAsync'']))"
| "retryAwaitableAsync fn request delay k (Suc retries) =
     (case fn k of
        Inr v \<Rightarrow> (Inr v, [request])
      | Inl err \<Rightarrow>
          (let (r, fx) = retryAwaitableAsync fn request delay (Suc k) retries
           in (r, request # SetTimeout delay # fx)))"

text \<open>
  \<open>initOwnIndex\<close>; \<open>tip k\<close> answers the \<open>k\<close>-th read of the latest comment and \<open>rangeResponse\<close>
  the range read of the backfill. The result is \<open>Inl\<close> when the promise is rejected.
\<close>

definition initOwnIndex ::
  "collaborators \<Rightarrow> SwarmComment \<Rightarrow> int option \<Rightarrow> (nat \<Rightarrow> error + MessageData option) \<Rightarrow>
     error + MessageData list option \<Rightarrow> (error + unit) \<times> SwarmComment \<times> effect list" where
  "initOwnIndex x s latest tip rangeResponse =
     (let s1 = (case latest of
                  None \<Rightarrow> s
                | Some l \<Rightarrow> s\<lparr>userDetails := (userDetails s)\<lparr>ownIndex := l\<rparr>\<rparr>)
      in case retryAwaitableAsync tip (ReadSingleComment None) 1000 0 10 of
           (Inl err, fx) \<Rightarrow> (Inl err, s1, fx)
         | (Inr comment, fx) \<Rightarrow>
             (case indexStrToBigint (case comment of None \<Rightarrow> None | Some c \<Rightarrow> index' c) of
                Inl err \<Rightarrow> (Inl err, s1, fx)
              | Inr None \<Rightarrow> (Inr (), s1, fx)
              | Inr (Some parsedIx) \<Rightarrow>
                  if parsedIx \<noteq> 0 \<and> fromBigInt parsedIx \<noteq> MINUS_ONE
                     \<and> parsedIx > ownIndex (userDetails s1)
                  then
                    let start = (if latest = None then parsedIx - COMMENTS_TO_READ
                                 else ownIndex (userDetails s1));
                        s2 = s1\<lparr>userDetails := (userDetails s1)\<lparr>ownIndex := parsedIx\<rparr>\<rparr>
                    in (case fetchMessagesInRange x (start + 1) parsedIx rangeResponse of
                          (r, fx2) \<Rightarrow> (r, s2, fx @ fx2))
                  else (Inr (), s1, fx)))"

definition initReactionIndex ::
  "SwarmComment \<Rightarrow> int option \<Rightarrow> error + ReactionsWithIndex \<Rightarrow> SwarmComment \<times> effect list" where
  "initReactionIndex s ri response =
     (case ri of
        None \<Rightarrow> fetchLatestReactions s None response
      | Some r \<Rightarrow> (s\<lparr>reactionIndex := r\<rparr>, []))"

text \<open>What the outside answers during \<open>init\<close>.\<close>

record InitEnv =
  ownTip :: "nat \<Rightarrow> error + MessageData option"
  backfillRange :: "error + MessageData list option"
  historyTip :: "error + MessageData option"
  initReactions :: "error + ReactionsWithIndex"

text \<open>
  \<open>init\<close> starts its three initialisations together and waits for all of them. They write
  disjoint parts of the state, so the state after \<open>init\<close> does not depend on the order in
  which their requests are answered; the effects are listed in the order of the calls.
\<close>

definition init :: "collaborators \<Rightarrow> SwarmComment \<Rightarrow> PreloadOptions option \<Rightarrow> InitEnv \<Rightarrow> SwarmComment \<times> effect list" where
  "init x s options env =
     (let latest = (case options of None \<Rightarrow> None | Some opts \<Rightarrow> latestIndex opts);
          first = (case options of
                     None \<Rightarrow> None
                   | Some opts \<Rightarrow> (case firstIndex opts of None \<Rightarrow> latestIndex opts | Some f \<Rightarrow> Some f));
          ri = (case options of None \<Rightarrow> None | Some opts \<Rightarrow> reactionIndex_opt opts);
          (ownIndexResult, s1, fx1) = initOwnIndex x s latest (ownTip env) (backfillRange env);
          (h, fx2) = history_init x (history s1) first (historyTip env);
          (s3, fx3) = initReactionIndex (s1\<lparr>history := h\<rparr>) ri (initReactions env);
          fx = Emit (LOADING_INIT True) # fx1 @ fx2 @ fx3
      in (case ownIndexResult of
            Inl err \<Rightarrow> (s3, fx @ [HandleError err ''Comment.initSelfState'', Emit (CRITICAL_ERROR err)])
          | Inr u \<Rightarrow> (s3, fx @ [Emit (LOADING_INIT False)])))"

text \<open>
  One run of the \<open>poll\<close> closure of \<open>startMessagesFetchProcess\<close>. The two refreshes are
  started together; they write different pointers. The effects of the message refresh are
  listed here before those of the reaction refresh; the source sends both reads before it
  handles either answer, as \<open>poll_call\<close> below does.
\<close>

definition poll ::
  "SwarmComment \<Rightarrow> error + MessageData option \<Rightarrow> error + ReactionsWithIndex \<Rightarrow> SwarmComment \<times> effect list" where
  "poll s tip reactions =
     (if stopFetch s then (s\<lparr>fetchProcessRunning := False\<rparr>, [])
      else
        let (s1, fx1) = fetchLatestMessage s tip;
            (s2, fx2) = fetchLatestReactions s1 (Some (reactionIndex s + 1)) reactions
        in (s2, fx1 @ fx2 @ [SetTimeout (pollInterval s)]))"

definition startMessagesFetchProcess ::
  "SwarmComment \<Rightarrow> error + MessageData option \<Rightarrow> error + ReactionsWithIndex \<Rightarrow> SwarmComment \<times> effect list" where
  "startMessagesFetchProcess s tip reactions =
     (if fetchProcessRunning s then (s, [])
      else poll (s\<lparr>fetchProcessRunning := True, stopFetch := False\<rparr>) tip reactions)"

definition stopMessagesFetchProcess :: "SwarmComment \<Rightarrow> SwarmComment" where
  "stopMessagesFetchProcess s = s\<lparr>stopFetch := True\<rparr>"

definition stop :: "SwarmComment \<Rightarrow> SwarmComment \<times> effect list" where
  "stop s =
     (let s1 = stopMessagesFetchProcess s;
          s2 = s1\<lparr>history := cleanup (history s1)\<rparr>;
          s3 = s2\<lparr>reactionIndex := - 1\<rparr>;
          s4 = s3\<lparr>fetchProcessRunning := False\<rparr>
      in (s4, [CleanAll]))"


section \<open>The operations of a running session\<close>



section \<open>Requests in flight\<close>

text \<open>
  The methods above run from call to return in one step. In the source every \<open>await\<close> of a
  request gives control back to the event loop, and the rest of the method runs when the
  answer arrives; the code between two awaits runs without interruption. This section cuts
  the methods at their awaits, so that the answers to requests of different methods can
  arrive in any order.

  A \<open>task\<close> is the rest of a method that waits for an answer, with the local variables it
  still reads:
  \<^item> \<open>OwnTip latestIndex retries\<close>: \<open>initOwnIndex\<close> at the read of the latest comment inside
    \<open>retryAwaitableAsync\<close>; \<open>OwnRetry\<close>: the same between a failed read and the next one;
    \<open>OwnRange\<close>: \<open>initOwnIndex\<close> at the range read of the backfill;
  \<^item> \<open>HistoryTip\<close>: \<open>SwarmHistory.init\<close> at its read of the latest comment;
  \<^item> \<open>InitReactions prevIndex\<close>, \<open>PollReactions prevIndex\<close>: \<open>fetchLatestReactions\<close> called by
    \<open>initReactionIndex\<close> and by \<open>poll\<close>, at the read of the reaction state; \<open>prevIndex\<close> is the
    reaction pointer at the time of the call, passed to \<open>fetchLatestReactionState\<close>;
  \<^item> \<open>PollMessage\<close>: \<open>fetchLatestMessage\<close> called by \<open>poll\<close>, past its guard, at the read of the
    latest comment; \<open>PollTimer\<close>: the timer set at the end of a \<open>poll\<close>;
  \<^item> \<open>SendTip\<close>, \<open>SendReactions\<close>: \<open>sendMessage\<close> at the refresh it starts with;
    \<open>WriteComment\<close>, \<open>WriteReactions\<close>: at the write; \<open>SendCheck\<close>: at the read-back of
    \<open>verifyWriteSuccess\<close>.
\<close>

datatype task =
    OwnTip "int option" nat
  | OwnRetry "int option" nat
  | OwnRange
  | HistoryTip
  | InitReactions int
  | PollMessage
  | PollReactions int
  | PollTimer
  | SendTip MessageData
  | SendReactions MessageData "MessageData list option" int
  | WriteComment MessageData int
  | WriteReactions MessageData FeedIndex
  | SendCheck MessageData int

text \<open>What the outside answers to a request: the result of a read or a write, or a timer firing.\<close>

datatype answer =
    Comment "error + MessageData option"
  | Comments "error + MessageData list option"
  | Reactions "error + ReactionsWithIndex"
  | Written "error + UploadResult option"
  | Fired

text \<open>
  The engine between two occurrences: the state of the object, the tasks waiting, the
  effects so far, and where the two \<open>Promise.allSettled\<close> stand: that of \<open>init\<close> waits for
  \<open>initOwnIndex\<close> (whose outcome it inspects), \<open>SwarmHistory.init\<close> and \<open>initReactionIndex\<close>,
  that of \<open>poll\<close> for the two refreshes.
\<close>

record runtime =
  session :: SwarmComment
  pending :: "task list"
  trace :: "effect list"
  initWaiting :: bool
  ownIndexSettled :: "(error + unit) option"
  historySettled :: bool
  reactionsSettled :: bool
  pollWaiting :: bool
  pollMessageSettled :: bool
  pollReactionsSettled :: bool

definition idle :: "SwarmComment \<Rightarrow> runtime" where
  "idle s =
     \<lparr>session = s, pending = [], trace = [], initWaiting = False, ownIndexSettled = None,
      historySettled = False, reactionsSettled = False, pollWaiting = False,
      pollMessageSettled = False, pollReactionsSettled = False\<rparr>"

definition observe :: "effect list \<Rightarrow> runtime \<Rightarrow> runtime" where
  "observe fx rt = rt\<lparr>trace := trace rt @ fx\<rparr>"

text \<open>A request is sent and the rest of the method waits for its answer.\<close>

definition await :: "effect \<Rightarrow> task \<Rightarrow> runtime \<Rightarrow> runtime" where
  "await request t rt = rt\<lparr>trace := trace rt @ [request], pending := pending rt @ [t]\<rparr>"

text \<open>
  The part of \<open>fetchLatestMessage\<close> after the read has answered: the pointer is compared
  and written here, and the guard, read before the request was sent, is not read again.
\<close>

definition fetchLatestMessage_answer ::
  "SwarmComment \<Rightarrow> error + MessageData option \<Rightarrow> SwarmComment \<times> effect list" where
  "fetchLatestMessage_answer s response =
     (case fst (history_fetchLatestMessage response) of
        Inl err \<Rightarrow> (s, [HandleError err ''Comment.fetchLatestMessage''])
      | Inr (comment, ix) \<Rightarrow>
          if ix \<noteq> MINUS_ONE \<and> ownIndex (userDetails s) < toBigInt ix
          then (s\<lparr>userDetails := (userDetails s)\<lparr>ownIndex := toBigInt ix\<rparr>\<rparr>,
                [Emit (MESSAGE_RECEIVED comment)])
          else (s, []))"

text \<open>
  The part of \<open>fetchLatestReactions\<close> after the read has answered. The first effect of
  \<open>fetchLatestReactionState\<close> is the request, which was sent at the call.
\<close>

definition fetchLatestReactions_answer ::
  "SwarmComment \<Rightarrow> int \<Rightarrow> error + ReactionsWithIndex \<Rightarrow> SwarmComment \<times> effect list" where
  "fetchLatestReactions_answer s prevIndex response =
     (case fetchLatestReactionState None (Some prevIndex) response of
        (Inl err, fx) \<Rightarrow> (s, tl fx @ [HandleError err ''Comment.fetchLatestReactions''])
      | (Inr next, fx) \<Rightarrow>
          let reactionNextIndex = toBigInt next
          in if reactionNextIndex - 1 > reactionIndex s
             then (s\<lparr>reactionIndex := reactionNextIndex - 1\<rparr>, tl fx)
             else (s, tl fx))"

definition message_answer :: "runtime \<Rightarrow> error + MessageData option \<Rightarrow> runtime" where
  "message_answer rt response =
     (case fetchLatestMessage_answer (session rt) response of
        (s, fx) \<Rightarrow> observe fx (rt\<lparr>session := s\<rparr>))"

definition reactions_answer :: "runtime \<Rightarrow> int \<Rightarrow> error + ReactionsWithIndex \<Rightarrow> runtime" where
  "reactions_answer rt prevIndex response =
     (case fetchLatestReactions_answer (session rt) prevIndex response of
        (s, fx) \<Rightarrow> observe fx (rt\<lparr>session := s\<rparr>))"

text \<open>
  \<open>init\<close> goes on after its \<open>Promise.allSettled\<close> once the three initialisations are settled,
  \<open>poll\<close> after its own once the two refreshes are.
\<close>

definition init_resume :: "runtime \<Rightarrow> runtime" where
  "init_resume rt =
     (if initWaiting rt \<and> historySettled rt \<and> reactionsSettled rt then
        (case ownIndexSettled rt of
           None \<Rightarrow> rt
         | Some (Inl err) \<Rightarrow>
             observe [HandleError err ''Comment.initSelfState'', Emit (CRITICAL_ERROR err)]
               (rt\<lparr>initWaiting := False\<rparr>)
         | Some (Inr u) \<Rightarrow> observe [Emit (LOADING_INIT False)] (rt\<lparr>initWaiting := False\<rparr>))
      else rt)"

definition poll_resume :: "runtime \<Rightarrow> runtime" where
  "poll_resume rt =
     (if pollWaiting rt \<and> pollMessageSettled rt \<and> pollReactionsSettled rt
      then await (SetTimeout (pollInterval (session rt))) PollTimer (rt\<lparr>pollWaiting := False\<rparr>)
      else rt)"

text \<open>
  The \<open>poll\<close> closure up to its \<open>await\<close>: both refreshes are called, and each sends its read,
  before any answer is handled. With the guard set \<open>fetchLatestMessage\<close> returns at the
  call.
\<close>

definition poll_call :: "runtime \<Rightarrow> runtime" where
  "poll_call rt =
     (let s = session rt in
      if stopFetch s then rt\<lparr>session := s\<lparr>fetchProcessRunning := False\<rparr>\<rparr>
      else
        let rt1 = (if isSending s then rt\<lparr>pollMessageSettled := True\<rparr>
                   else await (ReadSingleComment None) PollMessage (rt\<lparr>pollMessageSettled := False\<rparr>));
            rt2 = await (ReadReactionsWithIndex (Some (fromBigInt (reactionIndex s + 1))))
                    (PollReactions (reactionIndex s)) (rt1\<lparr>pollReactionsSettled := False\<rparr>)
        in rt2\<lparr>pollWaiting := True\<rparr>)"

definition startMessagesFetchProcess_call :: "runtime \<Rightarrow> runtime" where
  "startMessagesFetchProcess_call rt =
     (if fetchProcessRunning (session rt) then rt
      else poll_call (rt\<lparr>session := (session rt)\<lparr>fetchProcessRunning := True, stopFetch := False\<rparr>\<rparr>))"

text \<open>
  \<open>init\<close> up to its \<open>await\<close>: the three initialisations are called one after the other, and
  each runs up to its first read. \<open>initOwnIndex\<close> seeds the message pointer from the
  checkpoint and sends the first read of the latest comment.
\<close>

definition init_call :: "runtime \<Rightarrow> PreloadOptions option \<Rightarrow> runtime" where
  "init_call rt options =
     (let latest = (case options of None \<Rightarrow> None | Some opts \<Rightarrow> latestIndex opts);
          first = (case options of
                     None \<Rightarrow> None
                   | Some opts \<Rightarrow> (case firstIndex opts of None \<Rightarrow> latestIndex opts | Some f \<Rightarrow> Some f));
          ri = (case options of None \<Rightarrow> None | Some opts \<Rightarrow> reactionIndex_opt opts);
          rt0 = observe [Emit (LOADING_INIT True)] rt;
          s = session rt0;
          s1 = (case latest of
                  None \<Rightarrow> s
                | Some l \<Rightarrow> s\<lparr>userDetails := (userDetails s)\<lparr>ownIndex := l\<rparr>\<rparr>);
          rt1 = await (ReadSingleComment None) (OwnTip latest 10)
                  (rt0\<lparr>session := s1, ownIndexSettled := None\<rparr>);
          rt2 = (case first of
                   Some f \<Rightarrow>
                     rt1\<lparr>session := (session rt1)\<lparr>history := (history (session rt1))\<lparr>startIndex := f\<rparr>\<rparr>,
                         historySettled := True\<rparr>
                 | None \<Rightarrow> await (ReadSingleComment None) HistoryTip (rt1\<lparr>historySettled := False\<rparr>));
          rt3 = (case ri of
                   Some r \<Rightarrow> rt2\<lparr>session := (session rt2)\<lparr>reactionIndex := r\<rparr>, reactionsSettled := True\<rparr>
                 | None \<Rightarrow>
                     await (ReadReactionsWithIndex None) (InitReactions (reactionIndex (session rt2)))
                       (rt2\<lparr>reactionsSettled := False\<rparr>))
      in rt3\<lparr>initWaiting := True\<rparr>)"

text \<open>
  \<open>start\<close> calls \<open>init\<close> and, without waiting for it, \<open>startMessagesFetchProcess\<close>: when it
  returns, the reads of the initialisation and those of the first \<open>poll\<close> are all in flight.
\<close>

definition start :: "SwarmComment \<Rightarrow> PreloadOptions option \<Rightarrow> runtime" where
  "start s options = startMessagesFetchProcess_call (init_call (idle s) options)"

text \<open>The rest of \<open>initOwnIndex\<close>, from an answer of the read of the latest comment.\<close>

definition initOwnIndex_settle :: "error + unit \<Rightarrow> runtime \<Rightarrow> runtime" where
  "initOwnIndex_settle r rt = init_resume (rt\<lparr>ownIndexSettled := Some r\<rparr>)"

definition ownTip_answer ::
  "runtime \<Rightarrow> int option \<Rightarrow> nat \<Rightarrow> error + MessageData option \<Rightarrow> runtime" where
  "ownTip_answer rt latest retries response =
     (case response of
        Inl err \<Rightarrow>
          (case retries of
             0 \<Rightarrow> initOwnIndex_settle (Inl err) (observe [HandleError err ''Utils.retryAwaitableAsync''] rt)
           | Suc n \<Rightarrow> await (SetTimeout 1000) (OwnRetry latest n) rt)
      | Inr comment \<Rightarrow>
          (case indexStrToBigint (case comment of None \<Rightarrow> None | Some c \<Rightarrow> index' c) of
             Inl err \<Rightarrow> initOwnIndex_settle (Inl err) rt
           | Inr None \<Rightarrow> initOwnIndex_settle (Inr ()) rt
           | Inr (Some parsedIx) \<Rightarrow>
               let s = session rt in
               if parsedIx \<noteq> 0 \<and> fromBigInt parsedIx \<noteq> MINUS_ONE \<and> parsedIx > ownIndex (userDetails s)
               then
                 let startIx = (if latest = None then parsedIx - COMMENTS_TO_READ
                                else ownIndex (userDetails s))
                 in await (ReadCommentsInRange (fromBigInt (startIx + 1)) (fromBigInt parsedIx)) OwnRange
                      (rt\<lparr>session := s\<lparr>userDetails := (userDetails s)\<lparr>ownIndex := parsedIx\<rparr>\<rparr>\<rparr>)
               else initOwnIndex_settle (Inr ()) rt))"

definition ownRange_answer :: "collaborators \<Rightarrow> runtime \<Rightarrow> error + MessageData list option \<Rightarrow> runtime" where
  "ownRange_answer x rt response =
     (case response of
        Inl err \<Rightarrow> initOwnIndex_settle (Inl err) rt
      | Inr None \<Rightarrow> initOwnIndex_settle (Inr ()) rt
      | Inr (Some comments) \<Rightarrow> initOwnIndex_settle (Inr ()) (observe (emitValidated x comments) rt))"

text \<open>The rest of \<open>SwarmHistory.init\<close>.\<close>

definition historyTip_answer :: "collaborators \<Rightarrow> runtime \<Rightarrow> error + MessageData option \<Rightarrow> runtime" where
  "historyTip_answer x rt response =
     (let rt1 =
            (case fst (history_fetchLatestMessage response) of
               Inl err \<Rightarrow> if isNotFoundError x err then rt else observe [HandleError err ''SwarmHistory.init''] rt
             | Inr (comment, ix) \<Rightarrow>
                 (observe (if ix \<noteq> MINUS_ONE then [Emit (MESSAGE_RECEIVED comment)] else []) rt)
                   \<lparr>session := (session rt)\<lparr>history := (history (session rt))\<lparr>startIndex := toBigInt ix\<rparr>\<rparr>\<rparr>)
      in init_resume (rt1\<lparr>historySettled := True\<rparr>))"

text \<open>
  \<open>sendMessage\<close> from the refresh to the write (lines 156 to 164 for a text or thread
  message): the index is computed from the pointer as it stands, the guard is raised, the
  write is sent.
\<close>

definition writeComment_call :: "runtime \<Rightarrow> MessageData \<Rightarrow> runtime" where
  "writeComment_call rt messageObj =
     (let s = session rt;
          nextIndex = (if ownIndex (userDetails s) = - 1 then 0 else ownIndex (userDetails s) + 1);
          messageObj1 = messageObj\<lparr>index' := Some (feedIndexToString (fromBigInt nextIndex))\<rparr>
      in await (WriteCommentToIndex messageObj1 (fromBigInt nextIndex)) (WriteComment messageObj1 nextIndex)
           (rt\<lparr>session := s\<lparr>isSending := True\<rparr>\<rparr>))"

definition writeReactions_call ::
  "collaborators \<Rightarrow> runtime \<Rightarrow> MessageData \<Rightarrow> MessageData list option \<Rightarrow> runtime" where
  "writeReactions_call x rt messageObj prevState =
     (let s = session rt;
          reactionNextIndex =
            (if reactionIndex s = - 1 then FEED_INDEX_ZERO else fromBigInt (reactionIndex s + 1));
          messageObj1 = messageObj\<lparr>index' := Some (feedIndexToString reactionNextIndex)\<rparr>;
          newReactionState =
            (case updateReactions x (case prevState of None \<Rightarrow> [] | Some p \<Rightarrow> p) messageObj1 of
               None \<Rightarrow> []
             | Some st \<Rightarrow> st)
      in await (WriteReactionsToIndex newReactionState reactionNextIndex)
           (WriteReactions messageObj1 reactionNextIndex) (rt\<lparr>session := s\<lparr>isSending := True\<rparr>\<rparr>))"

text \<open>The \<open>catch\<close> and \<open>finally\<close> clauses of \<open>sendMessage\<close>, and its last lines on success.\<close>

definition sendMessage_failed :: "runtime \<Rightarrow> error \<Rightarrow> MessageData \<Rightarrow> runtime" where
  "sendMessage_failed rt err messageObj =
     (observe [Emit (MESSAGE_REQUEST_ERROR messageObj), HandleError err ''Comment.sendMessage''] rt)
       \<lparr>session := (session rt)\<lparr>isSending := False\<rparr>\<rparr>"

definition sendMessage_uploaded :: "runtime \<Rightarrow> SwarmComment \<Rightarrow> MessageData \<Rightarrow> runtime" where
  "sendMessage_uploaded rt s messageObj =
     (observe [Emit (MESSAGE_REQUEST_UPLOADED messageObj)] rt)\<lparr>session := s\<lparr>isSending := False\<rparr>\<rparr>"

text \<open>
  \<open>sendMessage\<close> up to its first \<open>await\<close>. An exception of \<open>getSignature\<close> rejects the promise
  before anything is emitted. The refresh of the message tip returns at the call when the
  guard is set (another send is at its write), and the method goes on to its own write.
\<close>

definition sendMessage_call ::
  "collaborators \<Rightarrow> runtime \<Rightarrow> SendEnv \<Rightarrow> string \<Rightarrow> MessageType \<Rightarrow> string option \<Rightarrow> string option \<Rightarrow>
     MessageData list option \<Rightarrow> runtime" where
  "sendMessage_call x rt env msg ty target ident prevState =
     (case messageObject x (session rt) env msg ty target ident of
        Inl err \<Rightarrow> rt
      | Inr messageObj \<Rightarrow>
          let rt1 = observe [Emit (MESSAGE_REQUEST_INITIATED messageObj)] rt
          in if ty = REACTION
             then await (ReadReactionsWithIndex None)
                    (SendReactions messageObj prevState (reactionIndex (session rt))) rt1
             else if isSending (session rt) then writeComment_call rt1 messageObj
             else await (ReadSingleComment None) (SendTip messageObj) rt1)"

definition writeComment_answer :: "runtime \<Rightarrow> MessageData \<Rightarrow> int \<Rightarrow> error + UploadResult option \<Rightarrow> runtime" where
  "writeComment_answer rt messageObj nextIx response =
     (case response of
        Inl err \<Rightarrow> sendMessage_failed rt err messageObj
      | Inr None \<Rightarrow> sendMessage_failed rt WriteFailed messageObj
      | Inr (Some res) \<Rightarrow>
          await (ReadSingleComment (Some (fromBigInt nextIx))) (SendCheck messageObj nextIx) rt)"

definition sendCheck_answer :: "runtime \<Rightarrow> MessageData \<Rightarrow> int \<Rightarrow> error + MessageData option \<Rightarrow> runtime" where
  "sendCheck_answer rt messageObj nextIx response =
     (case response of
        Inl err \<Rightarrow> sendMessage_failed rt err messageObj
      | Inr None \<Rightarrow> sendMessage_failed rt CommentCheckFailed messageObj
      | Inr (Some dataCheck) \<Rightarrow>
          if id' dataCheck \<noteq> id' messageObj \<or> timestamp dataCheck \<noteq> timestamp messageObj
          then sendMessage_failed rt
                 (WriteVerificationFailed (message messageObj) (message dataCheck)
                    (timestamp messageObj) (timestamp dataCheck)) messageObj
          else sendMessage_uploaded rt
                 ((session rt)\<lparr>userDetails := (userDetails (session rt))\<lparr>ownIndex := nextIx\<rparr>\<rparr>)
                 messageObj)"

definition writeReactions_answer ::
  "runtime \<Rightarrow> MessageData \<Rightarrow> FeedIndex \<Rightarrow> error + UploadResult option \<Rightarrow> runtime" where
  "writeReactions_answer rt messageObj reactionNextIndex response =
     (case response of
        Inl err \<Rightarrow> sendMessage_failed rt err messageObj
      | Inr None \<Rightarrow> sendMessage_failed rt WriteFailed messageObj
      | Inr (Some res) \<Rightarrow>
          sendMessage_uploaded rt ((session rt)\<lparr>reactionIndex := toBigInt reactionNextIndex\<rparr>) messageObj)"

text \<open>
  The rest of the method a task stands for, run on the answer to its request. An answer
  of another kind is not an answer to that request, and the task goes on waiting.
\<close>

definition resume :: "collaborators \<Rightarrow> runtime \<Rightarrow> task \<Rightarrow> answer \<Rightarrow> runtime" where
  "resume x rt t a =
     (let waiting = rt\<lparr>pending := pending rt @ [t]\<rparr> in
      case t of
        OwnTip latest retries \<Rightarrow>
          (case a of Comment response \<Rightarrow> ownTip_answer rt latest retries response | _ \<Rightarrow> waiting)
      | OwnRetry latest retries \<Rightarrow>
          (case a of Fired \<Rightarrow> await (ReadSingleComment None) (OwnTip latest retries) rt | _ \<Rightarrow> waiting)
      | OwnRange \<Rightarrow>
          (case a of Comments response \<Rightarrow> ownRange_answer x rt response | _ \<Rightarrow> waiting)
      | HistoryTip \<Rightarrow>
          (case a of Comment response \<Rightarrow> historyTip_answer x rt response | _ \<Rightarrow> waiting)
      | InitReactions prevIndex \<Rightarrow>
          (case a of
             Reactions response \<Rightarrow>
               init_resume ((reactions_answer rt prevIndex response)\<lparr>reactionsSettled := True\<rparr>)
           | _ \<Rightarrow> waiting)
      | PollMessage \<Rightarrow>
          (case a of
             Comment response \<Rightarrow> poll_resume ((message_answer rt response)\<lparr>pollMessageSettled := True\<rparr>)
           | _ \<Rightarrow> waiting)
      | PollReactions prevIndex \<Rightarrow>
          (case a of
             Reactions response \<Rightarrow>
               poll_resume ((reactions_answer rt prevIndex response)\<lparr>pollReactionsSettled := True\<rparr>)
           | _ \<Rightarrow> waiting)
      | PollTimer \<Rightarrow>
          (case a of Fired \<Rightarrow> poll_call rt | _ \<Rightarrow> waiting)
      | SendTip messageObj \<Rightarrow>
          (case a of
             Comment response \<Rightarrow> writeComment_call (message_answer rt response) messageObj
           | _ \<Rightarrow> waiting)
      | SendReactions messageObj prevState prevIndex \<Rightarrow>
          (case a of
             Reactions response \<Rightarrow>
               writeReactions_call x (reactions_answer rt prevIndex response) messageObj prevState
           | _ \<Rightarrow> waiting)
      | WriteComment messageObj nextIx \<Rightarrow>
          (case a of Written response \<Rightarrow> writeComment_answer rt messageObj nextIx response | _ \<Rightarrow> waiting)
      | WriteReactions messageObj reactionNextIndex \<Rightarrow>
          (case a of
             Written response \<Rightarrow> writeReactions_answer rt messageObj reactionNextIndex response
           | _ \<Rightarrow> waiting)
      | SendCheck messageObj nextIx \<Rightarrow>
          (case a of Comment response \<Rightarrow> sendCheck_answer rt messageObj nextIx response | _ \<Rightarrow> waiting))"

text \<open>
  What happens to a started engine: the answer to the request of a waiting task arrives,
  or the application calls \<open>sendMessage\<close> (with the identifier and the clock readings of that
  call). A run is a sequence of occurrences, handled one at a time.
\<close>

datatype occurrence =
    Answer task answer
  | SendMessage SendEnv string MessageType "string option" "string option" "MessageData list option"

fun occur :: "collaborators \<Rightarrow> runtime \<Rightarrow> occurrence \<Rightarrow> runtime" where
  "occur x rt (Answer t a) =
     (if t \<in> set (pending rt) then resume x (rt\<lparr>pending := remove1 t (pending rt)\<rparr>) t a else rt)"
| "occur x rt (SendMessage env msg ty target ident prevState) =
     sendMessage_call x rt env msg ty target ident prevState"

fun run :: "collaborators \<Rightarrow> runtime \<Rightarrow> occurrence list \<Rightarrow> runtime" where
  "run x rt [] = rt"
| "run x rt (e # es) = run x (occur x rt e) es"

section \<open>Concrete collaborators, messages and sessions\<close>

text \<open>
  Values at which the theorems below are instantiated: collaborators whose signature
  check accepts \<open>''sig''\<close>, rejects \<open>''forged''\<close> and throws on anything else, a message
  with a given identifier, timestamp and index, and a freshly constructed session.
\<close>

definition demoCollaborators :: collaborators where
  "demoCollaborators =
     \<lparr>updateReactions = (\<lambda>st m. Some (st @ [m])),
      keyAddress = (\<lambda>k. k),
      ethAddress = (\<lambda>a. a),
      sign = (\<lambda>k obj. ''sig''),
      digest = (\<lambda>obj. ''digest''),
      isValid = (\<lambda>sg d a. if sg = ''sig'' then Inr True
                            else if sg = ''forged'' then Inr False
                            else Inl (External ''malformed signature'')),
      topicString = (\<lambda>t. t),
      isNotFoundError = (\<lambda>err. err = External ''not found'')\<rparr>"

definition demoMessage :: "string \<Rightarrow> int \<Rightarrow> string option \<Rightarrow> string option \<Rightarrow> MessageData" where
  "demoMessage ident time ix sg =
     \<lparr>id' = ident, username = ''alice'', address = ''abc'', topic' = ''news'', signature = sg,
      timestamp = time, type' = TEXT, targetMessageId = None, message = ''hello'',
      index' = ix, isLegacy = None\<rparr>"

definition demoSession :: SwarmComment where
  "demoSession =
     new_SwarmComment demoCollaborators
       \<lparr>user_privateKey = ''abc'', user_nickname = ''alice'', infra_topic = ''news'',
        infra_pollInterval = None\<rparr>"

definition demoSendEnv :: SendEnv where
  "demoSendEnv =
     \<lparr>uuid = ''u-1'', nowSignature = 1000, nowMessage = 1001,
      tipResponse = Inr None,
      reactionsResponse = Inr \<lparr>messages = [], nextIndex = None\<rparr>,
      writeResponse = Inr (Some \<lparr>reference = ''ref''\<rparr>),
      checkResponse = Inr None\<rparr>"











section \<open>Round trips of the index codec\<close>

lemma digit_cases: "d < 16 \<Longrightarrow> d \<in> {0, 1, 2, 3, 4, 5, 6, 7, 8, 9, 10, 11, 12, 13, 14, 15 :: nat}"
  by simp arith

lemma digitValue_digitChar: "d < 16 \<Longrightarrow> digitValue (digitChar d) = Some d"
  using digit_cases [of d] by (auto simp: digitValue_def digitChar_def)

lemma isRadixDigit_digitChar: "d < R \<Longrightarrow> R \<le> 16 \<Longrightarrow> isRadixDigit R (digitChar d)"
  by (simp add: isRadixDigit_def digitValue_digitChar)

lemma not_isWhiteSpace_digitChar: "d < 16 \<Longrightarrow> \<not> isWhiteSpace (digitChar d)"
  using digit_cases [of d] by (auto simp: isWhiteSpace_def digitChar_def)

lemma not_isHexLetter_digitChar: "d < 10 \<Longrightarrow> \<not> isHexLetter (digitChar d)"
  using digit_cases [of d] by (auto simp: isHexLetter_def digitChar_def)

lemma digitChar_eq_zero: "d < 16 \<Longrightarrow> digitChar d = CHR ''0'' \<longleftrightarrow> d = 0"
  using digit_cases [of d] by (auto simp: digitChar_def)

lemma digitChar_not_sign: "d < 16 \<Longrightarrow> digitChar d \<noteq> CHR ''-'' \<and> digitChar d \<noteq> CHR ''+''"
  using digit_cases [of d] by (auto simp: digitChar_def)

lemma digitChar_not_x: "d < 16 \<Longrightarrow> digitChar d \<noteq> CHR ''x'' \<and> digitChar d \<noteq> CHR ''X''"
  using digit_cases [of d] by (auto simp: digitChar_def)

lemma mathInt_snoc: "mathInt R (xs @ [c]) = (case digitValue c of None \<Rightarrow> mathInt R xs | Some d \<Rightarrow> mathInt R xs * R + d)"
  by (simp add: mathInt_def split: option.split)

lemma mathInt_Nil: "mathInt R [] = 0"
  by (simp add: mathInt_def)

lemma decimalString_not_Nil: "decimalString n \<noteq> []"
  by (subst decimalString.simps) simp

lemma decimalString_digits: "set (decimalString n) \<subseteq> digitChar ` {..<10}"
proof (induction n rule: decimalString.induct)
  case (1 n)
  show ?case
  proof (cases "n < 10")
    case True
    then show ?thesis by (subst decimalString.simps) auto
  next
    case False
    with 1 show ?thesis by (subst decimalString.simps) auto
  qed
qed

lemma mathInt_decimalString: "mathInt 10 (decimalString n) = n"
proof (induction n rule: decimalString.induct)
  case (1 n)
  show ?case
  proof (cases "n < 10")
    case True
    then show ?thesis
      by (subst decimalString.simps) (simp add: mathInt_def digitValue_digitChar)
  next
    case False
    with 1 show ?thesis
      by (subst decimalString.simps) (simp add: mathInt_snoc digitValue_digitChar)
  qed
qed

lemma length_decimalString: "n < 10 ^ Suc k \<Longrightarrow> length (decimalString n) \<le> Suc k"
proof (induction k arbitrary: n)
  case 0
  then show ?case by (subst decimalString.simps) simp
next
  case (Suc k)
  show ?case
  proof (cases "n < 10")
    case True
    then show ?thesis by (subst decimalString.simps) simp
  next
    case False
    from Suc.prems have "n div 10 < 10 ^ Suc k" by (simp add: less_mult_imp_div_less)
    then have "length (decimalString (n div 10)) \<le> Suc k" by (rule Suc.IH)
    with False show ?thesis by (subst decimalString.simps) simp
  qed
qed

lemma hd_decimalString: "hd (decimalString n) = CHR ''0'' \<longleftrightarrow> n = 0"
proof (induction n rule: decimalString.induct)
  case (1 n)
  show ?case
  proof (cases "n < 10")
    case True
    then show ?thesis by (subst decimalString.simps) (simp add: digitChar_eq_zero)
  next
    case False
    then have "n div 10 \<noteq> 0" by simp
    with 1 False show ?thesis
      by (subst decimalString.simps) (simp add: decimalString_not_Nil)
  qed
qed


lemma toNumber_exact: "m < 2 ^ 53 \<Longrightarrow> toNumber 1 m = Finite (int m)"
proof -
  assume m: "m < 2 ^ 53"
  have "(2::nat) ^ 53 \<le> 2 ^ 1024" by (rule power_increasing) simp_all
  with m have "\<not> 2 ^ 1024 \<le> m" by linarith
  with m show ?thesis by (simp add: toNumber_def roundToDouble_def)
qed

lemma parseInt_digits:
  assumes ne: "s \<noteq> []" and ds: "set s \<subseteq> digitChar ` {..<R}" and R: "R = 10 \<or> R = 16"
    and small: "mathInt R s < 2 ^ 53"
  shows "parseInt s R = Finite (int (mathInt R s))"
proof -
  from ne obtain c cs where s: "s = c # cs" by (cases s) auto
  from ds s obtain d where d: "d < R" "c = digitChar d" by auto
  from d R have d36: "d < 16" by auto
  have ws: "dropWhile isWhiteSpace s = s"
    using s d d36 by (simp add: not_isWhiteSpace_digitChar)
  have sg: "c \<noteq> CHR ''-''" "c \<noteq> CHR ''+''"
    using d d36 digitChar_not_sign by auto
  have pre: "take 2 s \<noteq> ''0x'' \<and> take 2 s \<noteq> ''0X''"
  proof (cases cs)
    case Nil
    with s show ?thesis by simp
  next
    case (Cons c' cs')
    with ds s obtain d' where d': "d' < R" "c' = digitChar d'" by auto
    with R have "d' < 16" by auto
    then have "c' \<noteq> CHR ''x'' \<and> c' \<noteq> CHR ''X''"
      using d' digitChar_not_x by simp
    with s Cons show ?thesis by simp
  qed
  have "\<forall>x\<in>set s. isRadixDigit R x"
  proof
    fix x assume "x \<in> set s"
    with ds obtain e where "e < R" "x = digitChar e" by auto
    with R show "isRadixDigit R x" by (auto intro: isRadixDigit_digitChar)
  qed
  then have tw: "takeWhile (isRadixDigit R) s = s"
    by simp
  have hd: "hd s = c" using s by simp
  have "parseInt s R = toNumber 1 (mathInt R s)"
  proof (cases "R = 16")
    case True
    with sg pre ne hd show ?thesis using ws tw by (simp add: parseInt_def Let_def del: takeWhile_eq_all_conv)
  next
    case False
    with R have "R = 10" by simp
    with sg ne hd show ?thesis using ws tw by (simp add: parseInt_def Let_def del: takeWhile_eq_all_conv)
  qed
  with small show ?thesis by (simp add: toNumber_exact)
qed

lemma decimal_roundtrip:
  assumes "n < 10 ^ 10"
  shows "indexStrToBigint (Some (decimalString n)) = Inr (Some (int n))"
proof -
  let ?s = "decimalString n"
  have ne: "?s \<noteq> []" by (rule decimalString_not_Nil)
  have small10: "mathInt 10 ?s < 2 ^ 53"
    using assms by (simp add: mathInt_decimalString)
  show ?thesis
  proof (cases "n = 0")
    case True
    have "decimalString 0 = ''0''"
      by (subst decimalString.simps) (simp add: digitChar_eq_zero)
    with True show ?thesis
      by (simp add: indexStrToBigint_def parseInt_def BigInt_def toNumber_def roundToDouble_def
          mathInt_def isRadixDigit_def digitValue_def isWhiteSpace_def isHexLetter_def)
  next
    case False
    have nohex: "\<not> list_ex isHexLetter ?s"
      using decimalString_digits [of n] not_isHexLetter_digitChar
      by (auto simp: list_ex_iff)
    have hd0: "hd ?s \<noteq> CHR ''0''"
      using False by (simp add: hd_decimalString)
    have len: "length ?s \<le> 10"
      using length_decimalString [of n 9] assms by simp
    have "parseInt ?s 10 = Finite (int (mathInt 10 ?s))"
      using ne decimalString_digits small10 by (intro parseInt_digits) auto
    then have "parseInt ?s 10 = Finite (int n)"
      by (simp add: mathInt_decimalString)
    with ne nohex hd0 len show ?thesis
      by (simp add: indexStrToBigint_def BigInt_def)
  qed
qed



lemma length_fixedHex: "length (fixedHex k n) = k"
  by (induction k arbitrary: n) simp_all

lemma fixedHex_digits: "set (fixedHex k n) \<subseteq> digitChar ` {..<16}"
  by (induction k arbitrary: n) auto

lemma mathInt_fixedHex: "mathInt 16 (fixedHex k n) = n mod 16 ^ k"
proof (induction k arbitrary: n)
  case 0
  then show ?case by (simp add: mathInt_def)
next
  case (Suc k)
  have "n mod (16 * 16 ^ k) = 16 * (n div 16 mod 16 ^ k) + n mod 16"
    by (simp add: mod_mult2_eq)
  with Suc show ?case
    by (simp add: mathInt_snoc digitValue_digitChar)
qed


lemma unat_small: "toBigInt w < 2 ^ 53 \<Longrightarrow> unat w < 2 ^ 53"
proof -
  assume a: "toBigInt w < 2 ^ 53"
  have "int (unat w) = uint w" by simp
  with a have "int (unat w) < int (2 ^ 53)" by (simp add: toBigInt_def)
  then show "unat w < 2 ^ 53" by (simp only: of_nat_less_iff)
qed

lemma pow_le: "(2::nat) ^ 53 \<le> 16 ^ 16"
proof -
  have "(16::nat) ^ 16 = 2 ^ 64" by simp
  moreover have "(2::nat) ^ 53 \<le> 2 ^ 64" by (rule power_increasing) simp_all
  ultimately show ?thesis by simp
qed

lemma hex_roundtrip:
  assumes "toBigInt w < 2 ^ 53"
  shows "indexStrToBigint (Some (feedIndexToString w)) = Inr (Some (toBigInt w))"
proof -
  let ?s = "feedIndexToString w"
  have len: "length ?s = 16" by (simp add: feedIndexToString_def length_fixedHex)
  then have ne: "?s \<noteq> []" by auto
  have u: "unat w < 2 ^ 53" using assms by (rule unat_small)
  with pow_le have "unat w < 16 ^ 16" by linarith
  then have "unat w mod 16 ^ 16 = unat w" by (rule mod_less)
  then have val: "mathInt 16 ?s = unat w"
    by (simp only: feedIndexToString_def mathInt_fixedHex)
  have ds: "set ?s \<subseteq> digitChar ` {..<16}"
    unfolding feedIndexToString_def by (rule fixedHex_digits)
  have small: "mathInt 16 ?s < 2 ^ 53" using u val by simp
  have "parseInt ?s 16 = Finite (int (mathInt 16 ?s))"
    by (rule parseInt_digits [OF ne ds _ small]) simp
  then have p: "parseInt ?s 16 = Finite (toBigInt w)"
    by (simp add: val toBigInt_def)
  have "10 < length ?s" using len by simp
  with ne p show ?thesis
    by (simp add: indexStrToBigint_def BigInt_def)
qed

lemma fixedHex_numeral: "fixedHex (numeral v) n = fixedHex (pred_numeral v) (n div 16) @ [digitChar (n mod 16)]"
  by (subst numeral_eq_Suc [of v]) (rule fixedHex.simps(2))

lemmas codec_defs = indexStrToBigint_def parseInt_def BigInt_def toNumber_def roundToDouble_def
  mathInt_def isRadixDigit_def digitValue_def isWhiteSpace_def isHexLetter_def

lemma toBigInt_fromBigInt: "0 \<le> n \<Longrightarrow> n < 2 ^ 64 \<Longrightarrow> toBigInt (fromBigInt n) = n"
  by (simp add: toBigInt_def fromBigInt_def uint_word_of_int take_bit_int_eq_self)

text \<open>
  C8, as amended. Decoding the decimal form of \<open>n\<close> gives \<open>n\<close> for every \<open>n\<close> below \<open>10 ^ 10\<close>,
  and decoding the sixteen-digit hexadecimal form of the feed index \<open>n\<close> gives \<open>n\<close> for
  every \<open>n\<close> below \<open>2 ^ 53\<close>.
\<close>

theorem indexStrToBigint_roundtrip:
  "(n < 10 ^ 10 \<longrightarrow> indexStrToBigint (Some (decimalString n)) = Inr (Some (int n))) \<and>
   (n < 2 ^ 53 \<longrightarrow>
      indexStrToBigint (Some (feedIndexToString (fromBigInt (int n)))) = Inr (Some (int n)))"
proof (intro conjI impI)
  assume "n < 10 ^ 10"
  then show "indexStrToBigint (Some (decimalString n)) = Inr (Some (int n))"
    by (rule decimal_roundtrip)
next
  assume n: "n < 2 ^ 53"
  have "(2::nat) ^ 53 \<le> 2 ^ 64" by (rule power_increasing) simp_all
  with n have "n < 2 ^ 64" by linarith
  then have "int n < 2 ^ 64" by (metis of_nat_less_numeral_power_cancel_iff)
  then have eq: "toBigInt (fromBigInt (int n)) = int n"
    by (simp add: toBigInt_fromBigInt)
  from n have "int n < 2 ^ 53" by (metis of_nat_less_numeral_power_cancel_iff)
  with eq have "toBigInt (fromBigInt (int n)) < 2 ^ 53" by simp
  then have "indexStrToBigint (Some (feedIndexToString (fromBigInt (int n))))
      = Inr (Some (toBigInt (fromBigInt (int n))))"
    by (rule hex_roundtrip)
  with eq show "indexStrToBigint (Some (feedIndexToString (fromBigInt (int n)))) = Inr (Some (int n))"
    by simp
qed

theorem indexStrToBigint_roundtrip_witness:
  "indexStrToBigint (Some (decimalString 13)) = Inr (Some 13) \<and>
   indexStrToBigint (Some (feedIndexToString (fromBigInt 13))) = Inr (Some 13)"
  using indexStrToBigint_roundtrip [of 13] by simp

text \<open>
  C8 as stated fails: the decimal form of \<open>10 ^ 10\<close> has eleven characters and is read in
  radix 16, and the hexadecimal form of \<open>2 ^ 53 + 1\<close> passes through a double.
\<close>

theorem indexStrToBigint_roundtrip_counterexample:
  "indexStrToBigint (Some (decimalString 10000000000)) = Inr (Some 1099511627776) \<and>
   indexStrToBigint (Some (decimalString 10000000000)) \<noteq> Inr (Some 10000000000) \<and>
   indexStrToBigint (Some (feedIndexToString (fromBigInt 9007199254740993))) = Inr (Some 9007199254740992) \<and>
   indexStrToBigint (Some (feedIndexToString (fromBigInt 9007199254740993))) \<noteq> Inr (Some 9007199254740993)"
proof -
  have d: "decimalString 10000000000 = ''10000000000''"
    by (simp add: decimalString.simps digitChar_def)
  have dv: "indexStrToBigint (Some ''10000000000'') = Inr (Some 1099511627776)"
    by (simp add: codec_defs)
  have u: "unat (fromBigInt 9007199254740993) = 9007199254740993"
    by (simp add: fromBigInt_def)
  have h: "fixedHex 16 9007199254740993 = ''0020000000000001''"
    by (simp add: digitChar_def fixedHex_numeral)
  have hv: "indexStrToBigint (Some ''0020000000000001'') = Inr (Some 9007199254740992)"
    by (simp add: codec_defs bitLength.simps)
  show ?thesis
    by (simp add: d dv feedIndexToString_def u h hv)
qed

section \<open>Signature validation and delivery\<close>

lemma emitValidated_filter:
  "emitValidated x cs = map (\<lambda>c. Emit (MESSAGE_RECEIVED c)) (filter (validateUserSignature x) cs)"
  by (induction cs) simp_all

lemma validateUserSignature_iff:
  "validateUserSignature x c \<longleftrightarrow>
     isLegacy c = Some True \<or>
     (\<exists>sg. signature c = Some sg \<and>
        isValid x sg
          (digest x [(''username'', JString (username c)), (''address'', JString (address c)),
                     (''timestamp'', JNumber (timestamp c)), (''message'', JString (message c))])
          (address c) = Inr True)"
  by (auto simp: validateUserSignature_def Let_def split: option.splits sum.splits)

text \<open>
  C9. An entry flagged legacy is accepted; any other entry is accepted exactly when it
  carries a signature that verifies the recomputed digest against its claimed address
  (an exception of the check counts as a rejection). A fetched page is delivered without
  its rejected entries, in order, and the fetch itself succeeds.
\<close>

theorem validation_drops_invalid_entries:
  "(isLegacy c = Some True \<longrightarrow> validateUserSignature x c) \<and>
   (isLegacy c \<noteq> Some True \<longrightarrow>
      (validateUserSignature x c \<longleftrightarrow>
         (\<exists>sg. signature c = Some sg \<and>
            isValid x sg
              (digest x [(''username'', JString (username c)), (''address'', JString (address c)),
                         (''timestamp'', JNumber (timestamp c)), (''message'', JString (message c))])
              (address c) = Inr True))) \<and>
   fetchMessagesInRange x a b (Inr (Some cs)) =
     (Inr (),
      ReadCommentsInRange (fromBigInt a) (fromBigInt b) #
      map (\<lambda>c. Emit (MESSAGE_RECEIVED c)) (filter (validateUserSignature x) cs))"
proof (intro conjI impI)
  assume "isLegacy c = Some True"
  then show "validateUserSignature x c" by (simp add: validateUserSignature_def)
next
  assume "isLegacy c \<noteq> Some True"
  then show "validateUserSignature x c \<longleftrightarrow>
         (\<exists>sg. signature c = Some sg \<and>
            isValid x sg
              (digest x [(''username'', JString (username c)), (''address'', JString (address c)),
                         (''timestamp'', JNumber (timestamp c)), (''message'', JString (message c))])
              (address c) = Inr True)"
    by (simp add: validateUserSignature_iff)
next
  show "fetchMessagesInRange x a b (Inr (Some cs)) =
     (Inr (),
      ReadCommentsInRange (fromBigInt a) (fromBigInt b) #
      map (\<lambda>c. Emit (MESSAGE_RECEIVED c)) (filter (validateUserSignature x) cs))"
    by (simp add: fetchMessagesInRange_def emitValidated_filter)
qed

lemma demo_validate:
  "validateUserSignature demoCollaborators (demoMessage i t ix sg) \<longleftrightarrow> sg = Some ''sig''"
  by (auto simp: validateUserSignature_def demoCollaborators_def demoMessage_def split: option.splits)

theorem validation_drops_invalid_entries_witness:
  "validateUserSignature demoCollaborators ((demoMessage ''m0'' 5 None None)\<lparr>isLegacy := Some True\<rparr>) \<and>
   validateUserSignature demoCollaborators (demoMessage ''m1'' 6 None (Some ''sig'')) \<and>
   \<not> validateUserSignature demoCollaborators (demoMessage ''m2'' 7 None (Some ''forged'')) \<and>
   fetchMessagesInRange demoCollaborators 3 5
       (Inr (Some [demoMessage ''m1'' 6 None (Some ''sig''), demoMessage ''m2'' 7 None (Some ''forged''),
                   demoMessage ''m3'' 8 None (Some ''sig'')])) =
     (Inr (),
      [ReadCommentsInRange (fromBigInt 3) (fromBigInt 5),
       Emit (MESSAGE_RECEIVED (demoMessage ''m1'' 6 None (Some ''sig''))),
       Emit (MESSAGE_RECEIVED (demoMessage ''m3'' 8 None (Some ''sig'')))])"
  using validation_drops_invalid_entries
          [of "(demoMessage ''m0'' 5 None None)\<lparr>isLegacy := Some True\<rparr>" demoCollaborators 3 5
              "[demoMessage ''m1'' 6 None (Some ''sig''), demoMessage ''m2'' 7 None (Some ''forged''),
                demoMessage ''m3'' 8 None (Some ''sig'')]"]
  by (simp add: demo_validate)

section \<open>History pages\<close>

lemma fetchPreviousMessageState_page:
  assumes "0 < startIndex h"
  shows "\<exists>a b. 0 \<le> a \<and> a \<le> b \<and> b = startIndex h - 1 \<and> b - a < 9 \<and>
           a = (if 9 < startIndex h then startIndex h - 9 else 0) \<and>
           snd (snd (fetchPreviousMessageState x h response)) = snd (fetchMessagesInRange x a b response) \<and>
           fst (fetchPreviousMessageState x h response) = fst (fetchMessagesInRange x a b response) \<and>
           startIndex (fst (snd (fetchPreviousMessageState x h response))) =
             (case fst (fetchMessagesInRange x a b response) of Inl err \<Rightarrow> startIndex h | Inr u \<Rightarrow> a)"
  using assms
  by (auto simp: fetchPreviousMessageState_def COMMENTS_TO_READ_def Let_def fetchMessagesInRange_def
           split: prod.splits sum.splits option.splits)

text \<open>
  C4, as amended. \<open>hasPreviousMessages\<close> is true exactly when the cursor is greater than 0,
  so it is false exactly when the cursor is 0 or negative (\<open>- 1\<close> is the cursor of a session
  that knows no history). From cursor 12 a page load asks for the range 3..11 and moves the
  cursor to 3; from cursor 5 it asks for 0..4 and moves the cursor to 0; with a cursor that
  is not positive nothing is requested, and otherwise the one range requested starts at
  a non-negative index, ends just below the cursor and has at most 9 entries.
\<close>

theorem history_paging:
  "(hasPreviousMessages h \<longleftrightarrow> 0 < startIndex h) \<and>
   (\<not> hasPreviousMessages h \<longleftrightarrow> startIndex h \<le> 0) \<and>
   fetchPreviousMessageState x (h\<lparr>startIndex := 12\<rparr>) (Inr (Some cs)) =
     (Inr (), h\<lparr>startIndex := 3\<rparr>,
      ReadCommentsInRange (fromBigInt 3) (fromBigInt 11) # emitValidated x cs) \<and>
   fetchPreviousMessageState x (h\<lparr>startIndex := 5\<rparr>) (Inr (Some cs)) =
     (Inr (), h\<lparr>startIndex := 0\<rparr>,
      ReadCommentsInRange (fromBigInt 0) (fromBigInt 4) # emitValidated x cs) \<and>
   (startIndex h \<le> 0 \<longrightarrow> fetchPreviousMessageState x h response = (Inr (), h, [])) \<and>
   (0 < startIndex h \<longrightarrow>
      (\<exists>a b. 0 \<le> a \<and> a \<le> b \<and> b = startIndex h - 1 \<and> b - a < 9 \<and>
         snd (snd (fetchPreviousMessageState x h response)) = snd (fetchMessagesInRange x a b response)))"
proof (intro conjI impI)
  show "hasPreviousMessages h \<longleftrightarrow> 0 < startIndex h"
    by (simp add: hasPreviousMessages_def)
  show "\<not> hasPreviousMessages h \<longleftrightarrow> startIndex h \<le> 0"
    by (auto simp: hasPreviousMessages_def)
  show "fetchPreviousMessageState x (h\<lparr>startIndex := 12\<rparr>) (Inr (Some cs)) =
     (Inr (), h\<lparr>startIndex := 3\<rparr>,
      ReadCommentsInRange (fromBigInt 3) (fromBigInt 11) # emitValidated x cs)"
    by (simp add: fetchPreviousMessageState_def COMMENTS_TO_READ_def fetchMessagesInRange_def)
  show "fetchPreviousMessageState x (h\<lparr>startIndex := 5\<rparr>) (Inr (Some cs)) =
     (Inr (), h\<lparr>startIndex := 0\<rparr>,
      ReadCommentsInRange (fromBigInt 0) (fromBigInt 4) # emitValidated x cs)"
    by (simp add: fetchPreviousMessageState_def COMMENTS_TO_READ_def fetchMessagesInRange_def)
next
  assume "startIndex h \<le> 0"
  then show "fetchPreviousMessageState x h response = (Inr (), h, [])"
    by (simp add: fetchPreviousMessageState_def)
next
  assume "0 < startIndex h"
  from fetchPreviousMessageState_page [OF this, of x response]
  show "\<exists>a b. 0 \<le> a \<and> a \<le> b \<and> b = startIndex h - 1 \<and> b - a < 9 \<and>
         snd (snd (fetchPreviousMessageState x h response)) = snd (fetchMessagesInRange x a b response)"
    by blast
qed

theorem history_paging_witness:
  "hasPreviousMessages \<lparr>startIndex = 12\<rparr> \<and> \<not> hasPreviousMessages \<lparr>startIndex = 0\<rparr> \<and>
   fetchPreviousMessageState demoCollaborators \<lparr>startIndex = 0\<rparr> (Inr (Some [])) = (Inr (), \<lparr>startIndex = 0\<rparr>, []) \<and>
   (\<exists>a b. 0 \<le> a \<and> a \<le> b \<and> b = startIndex \<lparr>startIndex = 12\<rparr> - 1 \<and> b - a < 9 \<and>
      snd (snd (fetchPreviousMessageState demoCollaborators \<lparr>startIndex = 12\<rparr> (Inr (Some [])))) =
        snd (fetchMessagesInRange demoCollaborators a b (Inr (Some []))))"
proof -
  note a = history_paging [of "\<lparr>startIndex = 12\<rparr>" demoCollaborators "[]" "Inr (Some [])"]
  note b = history_paging [of "\<lparr>startIndex = 0\<rparr>" demoCollaborators "[]" "Inr (Some [])"]
  have p: "0 < startIndex \<lparr>startIndex = 12\<rparr>" by simp
  have z: "startIndex \<lparr>startIndex = 0\<rparr> \<le> 0" by simp
  from a b p z show ?thesis by blast
qed

text \<open>
  C4 as stated fails in its second reading: with the cursor at \<open>- 1\<close>, as in a fresh session,
  \<open>hasPreviousMessages\<close> is false although the cursor is not 0.
\<close>

theorem hasPreviousMessages_counterexample:
  "\<not> hasPreviousMessages (history demoSession) \<and> startIndex (history demoSession) \<noteq> 0"
  by (simp add: hasPreviousMessages_def demoSession_def new_SwarmComment_def)

section \<open>Stopping a session\<close>

lemma stop_pointers:
  "reactionIndex (fst (stop s)) = - 1 \<and> startIndex (history (fst (stop s))) = - 1 \<and>
   ownIndex (userDetails (fst (stop s))) = ownIndex (userDetails s)"
  by (simp add: stop_def stopMessagesFetchProcess_def cleanup_def)

text \<open>
  C7 at a concrete session: a session whose three pointers are at 13 is stopped. The
  reaction pointer and the history cursor are \<open>- 1\<close> afterwards; the message pointer is
  still 13.
\<close>

theorem stop_keeps_message_pointer:
  "ownIndex (userDetails (fst (stop
       (demoSession\<lparr>userDetails := (userDetails demoSession)\<lparr>ownIndex := 13\<rparr>,
                    history := \<lparr>startIndex = 13\<rparr>, reactionIndex := 13\<rparr>)))) = 13 \<and>
   reactionIndex (fst (stop
       (demoSession\<lparr>userDetails := (userDetails demoSession)\<lparr>ownIndex := 13\<rparr>,
                    history := \<lparr>startIndex = 13\<rparr>, reactionIndex := 13\<rparr>))) = - 1 \<and>
   startIndex (history (fst (stop
       (demoSession\<lparr>userDetails := (userDetails demoSession)\<lparr>ownIndex := 13\<rparr>,
                    history := \<lparr>startIndex = 13\<rparr>, reactionIndex := 13\<rparr>)))) = - 1"
  by (simp add: stop_pointers)

section \<open>The send path\<close>

text \<open>The effects and the final state of the two branches of \<open>sendMessage\<close>, case by case.\<close>

lemma sendComment_result:
  "sendComment s env m0 =
     (let s1 = fst (fetchLatestMessage s (tipResponse env));
          fx1 = snd (fetchLatestMessage s (tipResponse env));
          p = ownIndex (userDetails s1);
          ix = fromBigInt (p + 1);
          m1 = m0\<lparr>index' := Some (feedIndexToString ix)\<rparr>;
          w = WriteCommentToIndex m1 ix;
          rd = ReadSingleComment (Some ix)
      in case writeResponse env of
           Inl err \<Rightarrow> (s1\<lparr>isSending := True\<rparr>, fx1 @ [w], m1, Some err)
         | Inr None \<Rightarrow> (s1\<lparr>isSending := True\<rparr>, fx1 @ [w], m1, Some WriteFailed)
         | Inr (Some res) \<Rightarrow>
             (case checkResponse env of
                Inl err \<Rightarrow> (s1\<lparr>isSending := True\<rparr>, fx1 @ [w, rd], m1, Some err)
              | Inr None \<Rightarrow> (s1\<lparr>isSending := True\<rparr>, fx1 @ [w, rd], m1, Some CommentCheckFailed)
              | Inr (Some d) \<Rightarrow>
                  if id' d \<noteq> id' m0 \<or> timestamp d \<noteq> timestamp m0
                  then (s1\<lparr>isSending := True\<rparr>, fx1 @ [w, rd], m1,
                        Some (WriteVerificationFailed (message m0) (message d) (timestamp m0) (timestamp d)))
                  else (s1\<lparr>isSending := True, userDetails := (userDetails s1)\<lparr>ownIndex := p + 1\<rparr>\<rparr>,
                        fx1 @ [w, rd], m1, None)))"
proof -
  have next_eq: "\<And>p::int. (if p = - 1 then 0 else p + 1) = p + 1" by simp
  obtain s1 fx1 where f: "fetchLatestMessage s (tipResponse env) = (s1, fx1)"
    by (cases "fetchLatestMessage s (tipResponse env)")
  show ?thesis
  proof (cases "writeResponse env")
    case (Inl err)
    then show ?thesis by (simp add: sendComment_def Let_def f next_eq)
  next
    case (Inr res)
    show ?thesis
    proof (cases res)
      case None
      with Inr show ?thesis
        by (simp add: sendComment_def verifyWriteSuccess_def Let_def f next_eq)
    next
      case (Some r)
      show ?thesis
      proof (cases "checkResponse env")
        case (Inl err)
        with Inr Some show ?thesis
          by (simp add: sendComment_def verifyWriteSuccess_def Let_def f next_eq)
      next
        case check: (Inr c)
        with Inr Some show ?thesis
          by (cases c) (simp_all add: sendComment_def verifyWriteSuccess_def Let_def f next_eq)
      qed
    qed
  qed
qed

lemma sendReaction_result:
  "sendReaction x s env m0 prevState =
     (let s1 = fst (fetchLatestReactions s None (reactionsResponse env));
          fx1 = snd (fetchLatestReactions s None (reactionsResponse env));
          ix = (if reactionIndex s1 = - 1 then FEED_INDEX_ZERO else fromBigInt (reactionIndex s1 + 1));
          m1 = m0\<lparr>index' := Some (feedIndexToString ix)\<rparr>;
          snapshot = (case updateReactions x (case prevState of None \<Rightarrow> [] | Some p \<Rightarrow> p) m1 of
                        None \<Rightarrow> [] | Some st \<Rightarrow> st);
          w = WriteReactionsToIndex snapshot ix
      in case writeResponse env of
           Inl err \<Rightarrow> (s1\<lparr>isSending := True\<rparr>, fx1 @ [w], m1, Some err)
         | Inr None \<Rightarrow> (s1\<lparr>isSending := True\<rparr>, fx1 @ [w], m1, Some WriteFailed)
         | Inr (Some res) \<Rightarrow>
             (s1\<lparr>isSending := True, reactionIndex := toBigInt ix\<rparr>, fx1 @ [w], m1, None))"
proof -
  obtain s1 fx1 where f: "fetchLatestReactions s None (reactionsResponse env) = (s1, fx1)"
    by (cases "fetchLatestReactions s None (reactionsResponse env)")
  show ?thesis
  proof (cases "writeResponse env")
    case (Inl err)
    then show ?thesis by (simp add: sendReaction_def Let_def f)
  next
    case (Inr res)
    then show ?thesis
      by (cases res) (simp_all add: sendReaction_def verifyWriteSuccess_def Let_def f)
  qed
qed

text \<open>The whole of \<open>sendMessage\<close>, once the message object is built.\<close>

lemma sendMessage_result:
  assumes "messageObject x s env msg ty target ident = Inr m0"
  shows "sendMessage x s env msg ty target ident prevState =
     (let r = (if ty = REACTION then sendReaction x s env m0 prevState else sendComment s env m0);
          s1 = fst r; fx = fst (snd r); m1 = fst (snd (snd r)); thrown = snd (snd (snd r))
      in Inr (s1\<lparr>isSending := False\<rparr>,
              Emit (MESSAGE_REQUEST_INITIATED m0) # fx @
              (case thrown of
                 None \<Rightarrow> [Emit (MESSAGE_REQUEST_UPLOADED m1)]
               | Some err \<Rightarrow> [Emit (MESSAGE_REQUEST_ERROR m1), HandleError err ''Comment.sendMessage''])))"
proof (cases "if ty = REACTION then sendReaction x s env m0 prevState else sendComment s env m0")
  case (fields s1 fx m1 thrown)
  then show ?thesis
    using assms by (cases thrown) (simp_all add: sendMessage_def Let_def)
qed

lemma messageObject_Inl:
  "messageObject x s env msg ty target ident = Inl err \<longleftrightarrow>
     err = AddressMismatch \<and>
     keyAddress x (privateKey (userDetails s)) \<noteq> ethAddress x (ownAddress (userDetails s))"
  by (auto simp: messageObject_def getSignature_def Let_def)


lemma messageObject_fields:
  assumes "messageObject x s env msg ty target ident = Inr m0"
  shows "id' m0 = (case ident of None \<Rightarrow> uuid env | Some i \<Rightarrow> if i = [] then uuid env else i) \<and>
         timestamp m0 = nowMessage env \<and> type' m0 = ty \<and> targetMessageId m0 = target \<and>
         message m0 = msg \<and> index' m0 = None"
  using assms by (auto simp: messageObject_def split: sum.splits)

lemma sendMessage_Inl:
  "sendMessage x s env msg ty target ident prevState = Inl err \<longleftrightarrow>
     messageObject x s env msg ty target ident = Inl err"
proof (cases "messageObject x s env msg ty target ident")
  case (Inl e)
  then show ?thesis by (simp add: sendMessage_def)
next
  case (Inr m0)
  then show ?thesis by (simp add: sendMessage_result Let_def)
qed




text \<open>The send path at the concrete session.\<close>

lemma feedIndexToString_0: "feedIndexToString (fromBigInt 0) = ''0000000000000000''"
  by (simp add: feedIndexToString_def fromBigInt_def fixedHex_numeral digitChar_def)


lemma feedIndexToString_ZERO: "feedIndexToString FEED_INDEX_ZERO = ''0000000000000000''"
  by (simp add: FEED_INDEX_ZERO_def feedIndexToString_0)

lemma demoSession_eq:
  "demoSession =
     \<lparr>history = \<lparr>startIndex = - 1\<rparr>,
      userDetails = \<lparr>privateKey = ''abc'', ownAddress = ''abc'', nickname = ''alice'', ownIndex = - 1\<rparr>,
      topic = ''news'', pollInterval = 2000, fetchProcessRunning = False, stopFetch = False,
      reactionIndex = - 1, isSending = False\<rparr>"
  by (simp add: demoSession_def new_SwarmComment_def demoCollaborators_def remove0x_def
      toLowerCase_def DEFAULT_POLL_INTERVAL_def MINIMUM_POLL_INTERVAL_def)

lemma demo_messageObject:
  "i \<noteq> [] \<Longrightarrow>
   messageObject demoCollaborators demoSession env msg ty target (Some i) =
     Inr ((demoMessage i (nowMessage env) None (Some ''sig''))\<lparr>type' := ty, targetMessageId := target, message := msg\<rparr>)"
  by (simp add: messageObject_def getSignature_def demoSession_eq demoCollaborators_def demoMessage_def)


lemma demo_fetchLatestReactions_empty:
  "fetchLatestReactions demoSession None (Inr \<lparr>messages = [], nextIndex = None\<rparr>) =
     (demoSession, [ReadReactionsWithIndex None])"
  by (simp add: fetchLatestReactions_def fetchLatestReactionState_def indexStrToBigint_def
      demoSession_eq FEED_INDEX_ZERO_def fromBigInt_def toBigInt_def)

lemma demoSendEnv_fields:
  "nowMessage demoSendEnv = 1001 \<and> tipResponse demoSendEnv = Inr None \<and>
   reactionsResponse demoSendEnv = Inr \<lparr>messages = [], nextIndex = None\<rparr> \<and>
   writeResponse demoSendEnv = Inr (Some \<lparr>reference = ''ref''\<rparr>) \<and>
   checkResponse demoSendEnv = Inr None \<and> uuid demoSendEnv = ''u-1''"
  by (simp add: demoSendEnv_def)


lemma demo_reaction_object:
  "messageObject demoCollaborators demoSession demoSendEnv ''+1'' REACTION (Some ''m-1'') (Some ''r-1'') =
     Inr ((demoMessage ''r-1'' 1001 None (Some ''sig''))
            \<lparr>type' := REACTION, targetMessageId := Some ''m-1'', message := ''+1''\<rparr>)"
  by (simp add: demo_messageObject demoSendEnv_def)








text \<open>
  C10. A retried message is sent again with its text, type, target and identifier and
  with no prior reaction state. For a reaction, the snapshot written is therefore the
  merge of the new message object into the empty state, where a send that was given the
  prior state \<open>prev\<close> writes the merge into \<open>prev\<close>.
\<close>

theorem retry_omits_prior_reactions:
  assumes "type' m = REACTION"
    and "messageObject x s env (message m) REACTION (targetMessageId m) (Some (id' m)) = Inr m0"
  shows
    "retrySendMessage x s env m =
       (case sendMessage x s env (message m) REACTION (targetMessageId m) (Some (id' m)) (Some []) of
          Inl err \<Rightarrow> (s, []) | Inr r \<Rightarrow> r) \<and>
     message m0 = message m \<and> type' m0 = type' m \<and> targetMessageId m0 = targetMessageId m \<and>
     id' m0 = (if id' m = [] then uuid env else id' m) \<and>
     (let r = reactionIndex (fst (fetchLatestReactions s None (reactionsResponse env)));
          ix = (if r = - 1 then FEED_INDEX_ZERO else fromBigInt (r + 1));
          m1 = m0\<lparr>index' := Some (feedIndexToString ix)\<rparr>
      in WriteReactionsToIndex (case updateReactions x [] m1 of None \<Rightarrow> [] | Some st \<Rightarrow> st) ix
           \<in> set (snd (retrySendMessage x s env m)) \<and>
         (\<forall>prev s' fx.
            sendMessage x s env (message m) REACTION (targetMessageId m) (Some (id' m)) (Some prev) = Inr (s', fx) \<longrightarrow>
            WriteReactionsToIndex (case updateReactions x prev m1 of None \<Rightarrow> [] | Some st \<Rightarrow> st) ix \<in> set fx))"
proof -
  let ?r = "reactionIndex (fst (fetchLatestReactions s None (reactionsResponse env)))"
  let ?ix = "if ?r = - 1 then FEED_INDEX_ZERO else fromBigInt (?r + 1)"
  let ?m1 = "m0\<lparr>index' := Some (feedIndexToString ?ix)\<rparr>"
  have w: "WriteReactionsToIndex
             (case updateReactions x (case prevState of None \<Rightarrow> [] | Some p \<Rightarrow> p) ?m1 of
                None \<Rightarrow> [] | Some st \<Rightarrow> st) ?ix \<in> set fx"
    if "sendMessage x s env (message m) REACTION (targetMessageId m) (Some (id' m)) prevState = Inr (s', fx)"
    for prevState s' fx
  proof (cases "writeResponse env")
    case (Inl err)
    with that show ?thesis
      by (auto simp: sendMessage_result [OF assms(2)] sendReaction_result Let_def)
  next
    case (Inr r)
    with that show ?thesis
      by (cases r) (auto simp: sendMessage_result [OF assms(2)] sendReaction_result Let_def)
  qed
  have same: "sendMessage x s env (message m) REACTION (targetMessageId m) (Some (id' m)) None =
      sendMessage x s env (message m) REACTION (targetMessageId m) (Some (id' m)) (Some [])"
    by (simp add: sendMessage_result [OF assms(2)] sendReaction_result Let_def)
  have retry: "retrySendMessage x s env m =
       (case sendMessage x s env (message m) REACTION (targetMessageId m) (Some (id' m)) (Some []) of
          Inl err \<Rightarrow> (s, []) | Inr r \<Rightarrow> r)"
    using assms(1) by (simp add: retrySendMessage_def same)
  obtain s' fx where
    e: "sendMessage x s env (message m) REACTION (targetMessageId m) (Some (id' m)) (Some []) = Inr (s', fx)"
    by (simp add: sendMessage_result [OF assms(2)] Let_def)
  have mine: "WriteReactionsToIndex (case updateReactions x [] ?m1 of None \<Rightarrow> [] | Some st \<Rightarrow> st) ?ix
      \<in> set (snd (retrySendMessage x s env m))"
    using w [OF e] by (simp add: retry e)
  have fields: "message m0 = message m \<and> type' m0 = type' m \<and> targetMessageId m0 = targetMessageId m \<and>
     id' m0 = (if id' m = [] then uuid env else id' m)"
    using messageObject_fields [OF assms(2)] assms(1) by simp
  have others: "\<forall>prev s' fx.
      sendMessage x s env (message m) REACTION (targetMessageId m) (Some (id' m)) (Some prev) = Inr (s', fx) \<longrightarrow>
      WriteReactionsToIndex (case updateReactions x prev ?m1 of None \<Rightarrow> [] | Some st \<Rightarrow> st) ?ix \<in> set fx"
  proof (intro allI impI)
    fix prev s' fx
    assume "sendMessage x s env (message m) REACTION (targetMessageId m) (Some (id' m)) (Some prev) = Inr (s', fx)"
    from w [OF this]
    show "WriteReactionsToIndex (case updateReactions x prev ?m1 of None \<Rightarrow> [] | Some st \<Rightarrow> st) ?ix \<in> set fx"
      by simp
  qed
  show ?thesis
    unfolding Let_def
    using fields others mine retry by blast
qed

theorem retry_omits_prior_reactions_witness:
  "WriteReactionsToIndex
     [(demoMessage ''r-1'' 1001 (Some ''0000000000000000'') (Some ''sig''))
        \<lparr>type' := REACTION, targetMessageId := Some ''m-1'', message := ''+1''\<rparr>]
     (fromBigInt 0)
     \<in> set (snd (retrySendMessage demoCollaborators demoSession demoSendEnv
                 ((demoMessage ''r-1'' 900 None (Some ''sig''))
                    \<lparr>type' := REACTION, targetMessageId := Some ''m-1'', message := ''+1''\<rparr>))) \<and>
   WriteReactionsToIndex
     [demoMessage ''r-0'' 800 None (Some ''sig''),
      (demoMessage ''r-1'' 1001 (Some ''0000000000000000'') (Some ''sig''))
        \<lparr>type' := REACTION, targetMessageId := Some ''m-1'', message := ''+1''\<rparr>]
     (fromBigInt 0)
     \<in> set (snd (projr (sendMessage demoCollaborators demoSession demoSendEnv
                 ''+1'' REACTION (Some ''m-1'') (Some ''r-1'')
                 (Some [demoMessage ''r-0'' 800 None (Some ''sig'')]))))"
proof -
  let ?m = "(demoMessage ''r-1'' 900 None (Some ''sig''))
              \<lparr>type' := REACTION, targetMessageId := Some ''m-1'', message := ''+1''\<rparr>"
  have ty: "type' ?m = REACTION" by simp
  have f: "message ?m = ''+1''" "targetMessageId ?m = Some ''m-1''" "id' ?m = ''r-1''"
    by (simp_all add: demoMessage_def)
  have obj: "messageObject demoCollaborators demoSession demoSendEnv (message ?m) REACTION
      (targetMessageId ?m) (Some (id' ?m)) =
     Inr ((demoMessage ''r-1'' 1001 None (Some ''sig''))
            \<lparr>type' := REACTION, targetMessageId := Some ''m-1'', message := ''+1''\<rparr>)"
    unfolding f by (rule demo_reaction_object)
  note t = retry_omits_prior_reactions [OF ty obj]
  have r: "reactionIndex demoSession = - 1" by (simp add: demoSession_eq)
  have u: "updateReactions demoCollaborators = (\<lambda>st m. Some (st @ [m]))"
    by (simp add: demoCollaborators_def)
  have m1: "(demoMessage ''r-1'' 1001 None (Some ''sig''))
        \<lparr>type' := REACTION, targetMessageId := Some ''m-1'', message := ''+1'',
          index' := Some ''0000000000000000''\<rparr> =
      (demoMessage ''r-1'' 1001 (Some ''0000000000000000'') (Some ''sig''))
        \<lparr>type' := REACTION, targetMessageId := Some ''m-1'', message := ''+1''\<rparr>"
    by (simp add: demoMessage_def)
  obtain s' fx where e: "sendMessage demoCollaborators demoSession demoSendEnv
                 ''+1'' REACTION (Some ''m-1'') (Some ''r-1'')
                 (Some [demoMessage ''r-0'' 800 None (Some ''sig'')]) = Inr (s', fx)"
    by (simp add: sendMessage_result [OF demo_reaction_object] Let_def)
  have fz: "fst (fetchLatestReactions demoSession None (reactionsResponse demoSendEnv)) = demoSession"
    by (simp add: demoSendEnv_fields demo_fetchLatestReactions_empty)
  note t' = t [unfolded Let_def f fz r, simplified feedIndexToString_ZERO u m1, simplified]
  from t' have a: "WriteReactionsToIndex
     [(demoMessage ''r-1'' 1001 (Some ''0000000000000000'') (Some ''sig''))
        \<lparr>type' := REACTION, targetMessageId := Some ''m-1'', message := ''+1''\<rparr>]
     FEED_INDEX_ZERO
     \<in> set (snd (retrySendMessage demoCollaborators demoSession demoSendEnv ?m))"
    by (auto simp: feedIndexToString_ZERO demoMessage_def)
  from t' e have b: "WriteReactionsToIndex
     [demoMessage ''r-0'' 800 None (Some ''sig''),
      (demoMessage ''r-1'' 1001 (Some ''0000000000000000'') (Some ''sig''))
        \<lparr>type' := REACTION, targetMessageId := Some ''m-1'', message := ''+1''\<rparr>]
     FEED_INDEX_ZERO \<in> set fx"
    apply (elim conjE)
    apply (drule spec [of _ "[demoMessage ''r-0'' 800 None (Some ''sig'')]"])
    apply (drule spec [of _ s'])
    apply (drule spec [of _ fx])
    apply (simp add: feedIndexToString_ZERO demoMessage_def)
    done
  from a b e show ?thesis
    by (simp add: FEED_INDEX_ZERO_def)
qed

section \<open>Runs with nothing in between\<close>

text \<open>The refreshes in one step are the refreshes in flight with nothing in between.\<close>

lemma fetchLatestMessage_cut:
  "fetchLatestMessage s response =
     (if isSending s then (s, [])
      else (fst (fetchLatestMessage_answer s response),
            ReadSingleComment None # snd (fetchLatestMessage_answer s response)))"
  by (auto simp: fetchLatestMessage_def fetchLatestMessage_answer_def history_fetchLatestMessage_def
      split: sum.splits option.splits)

lemma fetchLatestReactionState_request:
  "snd (fetchLatestReactionState ix prev response) =
     ReadReactionsWithIndex (case ix of None \<Rightarrow> None | Some i \<Rightarrow> Some (fromBigInt i)) #
     tl (snd (fetchLatestReactionState None prev response)) \<and>
   fst (fetchLatestReactionState ix prev response) = fst (fetchLatestReactionState None prev response)"
  by (auto simp: fetchLatestReactionState_def Let_def split: sum.splits option.splits)

lemma fetchLatestReactions_cut:
  "fetchLatestReactions s ix response =
     (fst (fetchLatestReactions_answer s (reactionIndex s) response),
      ReadReactionsWithIndex (case ix of None \<Rightarrow> None | Some i \<Rightarrow> Some (fromBigInt i)) #
      snd (fetchLatestReactions_answer s (reactionIndex s) response))"
proof -
  obtain r fx where p: "fetchLatestReactionState ix (Some (reactionIndex s)) response = (r, fx)"
    by (cases "fetchLatestReactionState ix (Some (reactionIndex s)) response")
  obtain r0 fx0 where q: "fetchLatestReactionState None (Some (reactionIndex s)) response = (r0, fx0)"
    by (cases "fetchLatestReactionState None (Some (reactionIndex s)) response")
  from fetchLatestReactionState_request [of ix "Some (reactionIndex s)" response] p q
  have e: "r = r0" "fx = ReadReactionsWithIndex (case ix of None \<Rightarrow> None | Some i \<Rightarrow> Some (fromBigInt i)) # tl fx0"
    by simp_all
  show ?thesis
    by (cases r0) (simp_all add: fetchLatestReactions_def fetchLatestReactions_answer_def p q e Let_def)
qed








lemma fetchLatestMessage_answer_fields:
  "isSending (fst (fetchLatestMessage_answer s response)) = isSending s \<and>
   reactionIndex (fst (fetchLatestMessage_answer s response)) = reactionIndex s \<and>
   ownIndex (userDetails s) \<le> ownIndex (userDetails (fst (fetchLatestMessage_answer s response)))"
proof (cases "fst (history_fetchLatestMessage response)")
  case (Inl err)
  then show ?thesis by (simp add: fetchLatestMessage_answer_def)
next
  case (Inr p)
  then show ?thesis by (cases p) (simp add: fetchLatestMessage_answer_def)
qed


lemma fetchLatestMessage_answer_no_request:
  "set (snd (fetchLatestMessage_answer s response)) \<subseteq>
     range Emit \<union> {HandleError err ''Comment.fetchLatestMessage'' | err. True}"
proof (cases "fst (history_fetchLatestMessage response)")
  case (Inl err)
  then show ?thesis by (simp add: fetchLatestMessage_answer_def)
next
  case (Inr p)
  then show ?thesis by (cases p) (simp add: fetchLatestMessage_answer_def)
qed

text \<open>
  A method whose answers arrive with nothing in between does what the method in one step
  does: the states agree, and so do the effects, up to the order in which a \<open>poll\<close> sends
  its two reads.
\<close>

lemma poll_uninterrupted:
  assumes "\<not> stopFetch s" and "\<not> isSending s"
  shows "session (run x (poll_call (idle s))
            [Answer PollMessage (Comment tip),
             Answer (PollReactions (reactionIndex s)) (Reactions reactions)]) = fst (poll s tip reactions) \<and>
         set (trace (run x (poll_call (idle s))
            [Answer PollMessage (Comment tip),
             Answer (PollReactions (reactionIndex s)) (Reactions reactions)])) = set (snd (poll s tip reactions)) \<and>
         last (trace (run x (poll_call (idle s))
            [Answer PollMessage (Comment tip),
             Answer (PollReactions (reactionIndex s)) (Reactions reactions)])) = SetTimeout (pollInterval s)"
proof -
  obtain s1 fx1 where m: "fetchLatestMessage_answer s tip = (s1, fx1)"
    by (cases "fetchLatestMessage_answer s tip")
  obtain s2 fx2 where r: "fetchLatestReactions_answer s1 (reactionIndex s) reactions = (s2, fx2)"
    by (cases "fetchLatestReactions_answer s1 (reactionIndex s) reactions")
  from m fetchLatestMessage_answer_fields [of s tip]
  have f1: "reactionIndex s1 = reactionIndex s" "isSending s1 = isSending s"
    by simp_all
  have p1: "pollInterval s1 = pollInterval s"
  proof (cases "fst (history_fetchLatestMessage tip)")
    case (Inl err)
    with m show ?thesis by (auto simp: fetchLatestMessage_answer_def)
  next
    case (Inr p)
    with m show ?thesis by (cases p) (auto simp: fetchLatestMessage_answer_def split: if_splits)
  qed
  have p2: "pollInterval s2 = pollInterval s1"
  proof (cases "fetchLatestReactionState None (Some (reactionIndex s)) reactions")
    case (Pair a b)
    with r show ?thesis
      by (cases a) (auto simp: fetchLatestReactions_answer_def Let_def split: if_splits)
  qed
  have atomic: "poll s tip reactions =
      (s2, ReadSingleComment None # fx1 @
           ReadReactionsWithIndex (Some (fromBigInt (reactionIndex s + 1))) # fx2 @
           [SetTimeout (pollInterval s)])"
    using assms m r f1
    by (simp add: poll_def fetchLatestMessage_cut fetchLatestReactions_cut [of s1])
  have flight: "run x (poll_call (idle s))
            [Answer PollMessage (Comment tip),
             Answer (PollReactions (reactionIndex s)) (Reactions reactions)] =
      (idle s)\<lparr>session := s2,
                pending := [PollTimer],
                trace := ReadSingleComment None #
                         ReadReactionsWithIndex (Some (fromBigInt (reactionIndex s + 1))) # fx1 @ fx2 @
                         [SetTimeout (pollInterval s)],
                pollMessageSettled := True, pollReactionsSettled := True, pollWaiting := False\<rparr>"
    using assms m r p1 p2
    by (simp add: poll_call_def idle_def await_def resume_def message_answer_def reactions_answer_def
        observe_def poll_resume_def Let_def)
  show ?thesis
    unfolding flight atomic by auto
qed

lemma sendMessage_uninterrupted:
  assumes m0: "messageObject x s env msg ty target ident = Inr m0" and ty: "ty \<noteq> REACTION"
    and idle: "\<not> isSending s"
  shows "let s1 = fst (fetchLatestMessage_answer s (tipResponse env));
             k = ownIndex (userDetails s1) + 1;
             m1 = m0\<lparr>index' := Some (feedIndexToString (fromBigInt k))\<rparr>;
             rt = run x (idle s)
                    [SendMessage env msg ty target ident prevState,
                     Answer (SendTip m0) (Comment (tipResponse env)),
                     Answer (WriteComment m1 k) (Written (writeResponse env)),
                     Answer (SendCheck m1 k) (Comment (checkResponse env))]
         in sendMessage x s env msg ty target ident prevState = Inr (session rt, trace rt)"
proof -
  have next_eq: "\<And>p::int. (if p = - 1 then 0 else p + 1) = p + 1" by simp
  obtain s1 fx1 where a: "fetchLatestMessage_answer s (tipResponse env) = (s1, fx1)"
    by (cases "fetchLatestMessage_answer s (tipResponse env)")
  let ?k = "ownIndex (userDetails s1) + 1"
  let ?m1 = "m0\<lparr>index' := Some (feedIndexToString (fromBigInt ?k))\<rparr>"
  have f: "fetchLatestMessage s (tipResponse env) = (s1, ReadSingleComment None # fx1)"
    using idle a by (simp add: fetchLatestMessage_cut)
  have r2: "run x (idle s)
        [SendMessage env msg ty target ident prevState,
         Answer (SendTip m0) (Comment (tipResponse env))] =
      (idle s)\<lparr>session := s1\<lparr>isSending := True\<rparr>,
                pending := [WriteComment ?m1 ?k],
                trace := Emit (MESSAGE_REQUEST_INITIATED m0) # ReadSingleComment None # fx1 @
                         [WriteCommentToIndex ?m1 (fromBigInt ?k)]\<rparr>"
    using m0 ty idle a
    by (simp add: sendMessage_call_def idle_def await_def observe_def resume_def message_answer_def
        writeComment_call_def next_eq Let_def)
  have split4: "\<And>e1 e2 e3 e4. run x (idle s) [e1, e2, e3, e4] = run x (run x (idle s) [e1, e2]) [e3, e4]"
    by simp
  show ?thesis
  proof (cases "writeResponse env")
    case (Inl err)
    then show ?thesis
      using ty a f
      unfolding Let_def a fst_conv split4 r2
      by (simp add: sendMessage_result [OF m0] sendComment_result Let_def resume_def
          writeComment_answer_def sendMessage_failed_def observe_def idle_def)
  next
    case (Inr res)
    show ?thesis
    proof (cases res)
      case None
      with Inr show ?thesis
        using ty a f
        unfolding Let_def a fst_conv split4 r2
        by (simp add: sendMessage_result [OF m0] sendComment_result Let_def resume_def
            writeComment_answer_def sendMessage_failed_def observe_def idle_def)
    next
      case (Some u)
      show ?thesis
      proof (cases "checkResponse env")
        case (Inl err)
        with Inr Some show ?thesis
          using ty a f
          unfolding Let_def a fst_conv split4 r2
          by (simp add: sendMessage_result [OF m0] sendComment_result Let_def resume_def
              writeComment_answer_def sendCheck_answer_def sendMessage_failed_def await_def
              observe_def idle_def)
      next
        case check: (Inr c)
        with Inr Some show ?thesis
          using ty a f
          unfolding Let_def a fst_conv split4 r2
          by (cases c)
            (simp_all add: sendMessage_result [OF m0] sendComment_result Let_def resume_def
              writeComment_answer_def sendCheck_answer_def sendMessage_failed_def
              sendMessage_uploaded_def await_def observe_def idle_def)
      qed
    qed
  qed
qed

lemma retryAwaitableAsync_first_Suc:
  "tip 0 = Inr comment \<Longrightarrow> retryAwaitableAsync tip request delay 0 (Suc n) = (Inr comment, [request])"
  by simp

lemma retryAwaitableAsync_first:
  "tip 0 = Inr comment \<Longrightarrow> retryAwaitableAsync tip request delay 0 10 = (Inr comment, [request])"
  using retryAwaitableAsync_first_Suc [of tip comment request delay 9] by simp

lemma init_uninterrupted:
  assumes t: "ownTip env 0 = Inr comment"
    and f: "firstIndex opts = Some f" and r: "reactionIndex_opt opts = Some r"
  shows "init x s (Some opts) env =
           (session (run x (init_call (idle s) (Some opts))
              [Answer (OwnTip (latestIndex opts) 10) (Comment (ownTip env 0)),
               Answer OwnRange (Comments (backfillRange env))]),
            trace (run x (init_call (idle s) (Some opts))
              [Answer (OwnTip (latestIndex opts) 10) (Comment (ownTip env 0)),
               Answer OwnRange (Comments (backfillRange env))]))"
proof (cases "indexStrToBigint (case comment of None \<Rightarrow> None | Some c \<Rightarrow> index' c)")
  case (Inl err)
  with assms show ?thesis
    by (simp add: init_def initOwnIndex_def retryAwaitableAsync_first history_init_def
        initReactionIndex_def init_call_def idle_def await_def resume_def ownTip_answer_def
        initOwnIndex_settle_def init_resume_def observe_def Let_def
        split: option.splits)
next
  case (Inr p)
  show ?thesis
  proof (cases p)
    case None
    with Inr assms show ?thesis
      by (simp add: init_def initOwnIndex_def retryAwaitableAsync_first history_init_def
          initReactionIndex_def init_call_def idle_def await_def resume_def ownTip_answer_def
          initOwnIndex_settle_def init_resume_def observe_def Let_def
          split: option.splits)
  next
    case (Some parsedIx)
    with Inr assms show ?thesis
      by (cases "backfillRange env"; cases "latestIndex opts")
        (auto simp: init_def initOwnIndex_def retryAwaitableAsync_first history_init_def
          initReactionIndex_def init_call_def idle_def await_def resume_def ownTip_answer_def
          ownRange_answer_def fetchMessagesInRange_def
          initOwnIndex_settle_def init_resume_def observe_def Let_def
          split: option.splits)
  qed
qed



section \<open>Initialisation of the message pointer\<close>

lemma retryAwaitableAsync_no_emit:
  "Emit e \<notin> set (snd (retryAwaitableAsync fn (ReadSingleComment None) delay k retries))"
proof (induction retries arbitrary: k)
  case 0
  then show ?case by (simp split: sum.splits)
next
  case (Suc retries)
  show ?case
  proof (cases "fn k")
    case (Inl err)
    with Suc [of "Suc k"] show ?thesis by (simp add: case_prod_beta)
  next
    case (Inr v)
    then show ?thesis by simp
  qed
qed

lemma fetchLatestMessage_emits:
  assumes "Emit e \<in> set (snd (fetchLatestMessage s response))"
  shows "\<exists>c n. e = MESSAGE_RECEIVED c \<and> response = Inr (Some c) \<and>
           indexStrToBigint (index' c) = Inr (Some n) \<and>
           ownIndex (userDetails s) < toBigInt (fromBigInt n)"
  using assms
  by (auto simp: fetchLatestMessage_def history_fetchLatestMessage_def
      split: if_splits sum.splits option.splits)

lemma fromBigInt_13: "fromBigInt 13 \<noteq> MINUS_ONE" "toBigInt (fromBigInt 13) = 13"
  by (simp_all add: fromBigInt_def MINUS_ONE_def toBigInt_def)

text \<open>
  The whole of \<open>init\<close> run in one step, when the range read returns three comments with
  valid signatures: the history cursor is seeded from the checkpoint without a read, so
  the only other events between the two loading signals are those of the reaction stream.
\<close>

lemma init_with_checkpoint:
  assumes "retryAwaitableAsync (ownTip env) (ReadSingleComment None) 1000 0 10 = (Inr (Some c), reads)"
    and "indexStrToBigint (index' c) = Inr (Some 13)"
    and "validateUserSignature x m11" and "validateUserSignature x m12" and "validateUserSignature x m13"
    and "backfillRange env = Inr (Some [m11, m12, m13])"
    and "latestIndex opts = Some 10"
  shows
    "init x s (Some opts) env =
       (let s1 = s\<lparr>userDetails := (userDetails s)\<lparr>ownIndex := 13\<rparr>,
                   history := (history s)\<lparr>startIndex := (case firstIndex opts of None \<Rightarrow> 10 | Some f \<Rightarrow> f)\<rparr>\<rparr>;
            r = initReactionIndex s1 (reactionIndex_opt opts) (initReactions env)
        in (fst r,
            Emit (LOADING_INIT True) # reads @
            [ReadCommentsInRange (fromBigInt 11) (fromBigInt 13),
             Emit (MESSAGE_RECEIVED m11), Emit (MESSAGE_RECEIVED m12), Emit (MESSAGE_RECEIVED m13)] @
            snd r @ [Emit (LOADING_INIT False)]))"
proof -
  have own: "initOwnIndex x s (Some 10) (ownTip env) (Inr (Some [m11, m12, m13])) =
            (Inr (), s\<lparr>userDetails := (userDetails s)\<lparr>ownIndex := 13\<rparr>\<rparr>,
             reads @ [ReadCommentsInRange (fromBigInt 11) (fromBigInt 13),
                      Emit (MESSAGE_RECEIVED m11), Emit (MESSAGE_RECEIVED m12),
                      Emit (MESSAGE_RECEIVED m13)])"
    using assms(1-5)
    by (simp add: initOwnIndex_def fetchMessagesInRange_def fromBigInt_13 Let_def)
  show ?thesis
  proof (cases "firstIndex opts")
    case None
    with assms(6,7) own show ?thesis
      by (simp add: init_def history_init_def Let_def case_prod_beta)
  next
    case (Some f)
    with assms(6,7) own show ?thesis
      by (simp add: init_def history_init_def Let_def case_prod_beta)
  qed
qed












section \<open>The guard of the message refresh\<close>

























section \<open>The pointers never move backwards\<close>














end
